theory Spec2Isabelle
  imports Main
begin

section \<open>Python values, exceptions and the library behind the code\<close>

text \<open>
  The controller and the worker exchange JSON and keep their snapshot as JSON. A decoded
  JSON document is a Python value built from \<open>None\<close>, booleans, integers, strings, lists
  and dicts. A dict is an association list in insertion order; its keys are unique, as
  Python's are. JSON numbers with a fraction are left out: no modelled code reads one.
\<close>

datatype json =
    JNull
  | JBool bool
  | JInt int
  | JStr string
  | JArr "json list"
  | JObj "(string \<times> json) list"

text \<open>
  Exceptions are values. \<open>IllTyped\<close> is not a Python exception: where the source stores a
  decoded value in a dataclass field without checking it against the field's annotation,
  Python keeps the value; the typed records below have no such value, so the model stops
  there with \<open>IllTyped\<close>, and no \<open>except\<close> clause of the model handles it.
\<close>

datatype py_error =
    KeyError string
  | IndexError
  | TypeError
  | AttributeError
  | JSONDecodeError
  | AgentFailure string
  | IllTyped

text \<open>
  A \<open>pathlib.Path\<close> is modelled by the text \<open>str\<close> gives for it, so \<open>str(p)\<close> is the
  identity. The library functions the code calls are parameters, collected in one record:
  \<open>json.loads\<close>, \<open>json.dumps\<close>, the constructor \<open>Path(text)\<close> (which normalises, so
  \<open>Path('''')\<close> is the path \<open>.\<close>), \<open>str\<close> on a value that is not a string, \<open>str\<close> on an
  exception, \<open>traceback.format_exc\<close>, and the automation agent the worker delegates to.
\<close>

datatype task =
    ClassifyTask
  | ReadTask string string
  | RemoveTask "(string \<times> string \<times> string) list"

record env =
  json_loads :: "string \<Rightarrow> py_error + json"
  json_dumps :: "json \<Rightarrow> string"
  mkPath :: "string \<Rightarrow> string"
  str_other :: "json \<Rightarrow> string"
  exn_str :: "py_error \<Rightarrow> string"
  exn_name :: "py_error \<Rightarrow> string"
  format_exc :: "py_error \<Rightarrow> string"
  run_agent :: "task \<Rightarrow> py_error + (string \<times> string list)"

definition bindR :: "py_error + 'a \<Rightarrow> ('a \<Rightarrow> py_error + 'b) \<Rightarrow> py_error + 'b" where
  "bindR r f = (case r of Inl e \<Rightarrow> Inl e | Inr v \<Rightarrow> f v)"

fun mapR :: "('a \<Rightarrow> py_error + 'b) \<Rightarrow> 'a list \<Rightarrow> py_error + 'b list" where
  "mapR f [] = Inr []"
| "mapR f (x # xs) =
     (case f x of
        Inl e \<Rightarrow> Inl e
      | Inr y \<Rightarrow> (case mapR f xs of Inl e \<Rightarrow> Inl e | Inr ys \<Rightarrow> Inr (y # ys)))"

text \<open>Python's truth value of a decoded JSON value (\<open>if x:\<close>, \<open>bool(x)\<close>).\<close>

fun truthy :: "json \<Rightarrow> bool" where
  "truthy JNull = False"
| "truthy (JBool b) = b"
| "truthy (JInt n) = (n \<noteq> 0)"
| "truthy (JStr s) = (s \<noteq> [])"
| "truthy (JArr xs) = (xs \<noteq> [])"
| "truthy (JObj kvs) = (kvs \<noteq> [])"

text \<open>\<open>d[k]\<close>: KeyError on a dict without the key, TypeError on a value that takes no
  string subscript.\<close>

fun py_getitem :: "json \<Rightarrow> string \<Rightarrow> py_error + json" where
  "py_getitem (JObj kvs) k = (case map_of kvs k of None \<Rightarrow> Inl (KeyError k) | Some v \<Rightarrow> Inr v)"
| "py_getitem _ k = Inl TypeError"

text \<open>\<open>d.get(k, default)\<close>: only a dict has the method.\<close>

fun py_get :: "json \<Rightarrow> string \<Rightarrow> json \<Rightarrow> py_error + json" where
  "py_get (JObj kvs) k d = Inr (case map_of kvs k of None \<Rightarrow> d | Some v \<Rightarrow> v)"
| "py_get _ k d = Inl AttributeError"

text \<open>\<open>for x in v\<close>: a list yields its items, a dict its keys, a string its characters;
  nothing else is iterable.\<close>

fun py_iter :: "json \<Rightarrow> py_error + json list" where
  "py_iter (JArr xs) = Inr xs"
| "py_iter (JObj kvs) = Inr (map (\<lambda>kv. JStr (fst kv)) kvs)"
| "py_iter (JStr s) = Inr (map (\<lambda>c. JStr [c]) s)"
| "py_iter _ = Inl TypeError"

text \<open>Reading a decoded value into an annotated field.\<close>

fun as_str :: "json \<Rightarrow> py_error + string" where
  "as_str (JStr s) = Inr s"
| "as_str _ = Inl IllTyped"

fun as_bool :: "json \<Rightarrow> py_error + bool" where
  "as_bool (JBool b) = Inr b"
| "as_bool _ = Inl IllTyped"

fun as_int :: "json \<Rightarrow> py_error + int" where
  "as_int (JInt n) = Inr n"
| "as_int _ = Inl IllTyped"

fun as_opt_str :: "json \<Rightarrow> py_error + string option" where
  "as_opt_str JNull = Inr None"
| "as_opt_str (JStr s) = Inr (Some s)"
| "as_opt_str _ = Inl IllTyped"

text \<open>\<open>Path(v)\<close> raises TypeError unless \<open>v\<close> is a string.\<close>

fun as_path :: "env \<Rightarrow> json \<Rightarrow> py_error + string" where
  "as_path E (JStr s) = Inr (mkPath E s)"
| "as_path E _ = Inl TypeError"

text \<open>\<open>str(v)\<close>.\<close>

fun py_str :: "env \<Rightarrow> json \<Rightarrow> string" where
  "py_str E (JStr s) = s"
| "py_str E v = str_other E v"

text \<open>\<open>xs[i]\<close> on a list: a negative index counts from the end.\<close>

definition py_nth :: "'a list \<Rightarrow> int \<Rightarrow> py_error + 'a" where
  "py_nth xs i =
     (let n = int (length xs) in
      if 0 \<le> i \<and> i < n then Inr (xs ! nat i)
      else if - n \<le> i \<and> i < 0 then Inr (xs ! nat (n + i))
      else Inl IndexError)"

text \<open>Decimal text of a number, as an f-string prints it.\<close>

definition digit_char :: "nat \<Rightarrow> char" where
  "digit_char d = ''0123456789'' ! d"

fun str_nat :: "nat \<Rightarrow> string" where
  "str_nat n =
     (if n < 10 then [digit_char n]
      else str_nat (n div 10) @ [digit_char (n mod 10)])"

definition str_int :: "int \<Rightarrow> string" where
  "str_int i = (if i < 0 then CHR ''-'' # str_nat (nat (- i)) else str_nat (nat i))"

text \<open>A \<open>Dict[str, str]\<close>: lookup with a default, and assignment, which keeps the place
  of a key already present.\<close>

definition dict_get :: "(string \<times> 'v) list \<Rightarrow> string \<Rightarrow> 'v \<Rightarrow> 'v" where
  "dict_get d k dflt = (case map_of d k of None \<Rightarrow> dflt | Some v \<Rightarrow> v)"

fun dict_set :: "(string \<times> 'v) list \<Rightarrow> string \<Rightarrow> 'v \<Rightarrow> (string \<times> 'v) list" where
  "dict_set [] k v = [(k, v)]"
| "dict_set ((k', v') # d) k v = (if k' = k then (k, v) # d else (k', v') # dict_set d k v)"


section \<open>Entity model (modules/task_types.py, panel_state.py)\<close>

record GroupThread =
  name :: string
  thread_id :: string
  unread :: bool
  is_group :: bool

record Suspect =
  sender_id :: string
  sender_name :: string
  avatar_path :: string
  evidence_text :: string
  s_thread_id :: string

record RemovalPlan =
  suspects :: "Suspect list"
  confirmed :: bool
  plan_note :: "string option"

record PanelState =
  threads :: "GroupThread list"
  unread_groups :: "GroupThread list"
  current_thread_index :: int
  current_group_suspects :: "Suspect list"
  current_group_plan :: "RemovalPlan option"
  all_suspects :: "Suspect list"
  all_plans :: "RemovalPlan list"
  legacy_suspects :: "Suspect list"
  legacy_plan :: "RemovalPlan option"
  step_logs :: "(string \<times> string) list"

text \<open>\<open>PanelState()\<close>: every field at its default.\<close>

definition PanelState0 :: PanelState where
  "PanelState0 =
     \<lparr>threads = [], unread_groups = [], current_thread_index = 0,
      current_group_suspects = [], current_group_plan = None,
      all_suspects = [], all_plans = [],
      legacy_suspects = [], legacy_plan = None, step_logs = []\<rparr>"


section \<open>Snapshot encoding (panel_state.py)\<close>

definition serialize_suspect :: "Suspect \<Rightarrow> json" where
  "serialize_suspect s =
     JObj [(''sender_id'', JStr (sender_id s)),
           (''sender_name'', JStr (sender_name s)),
           (''avatar_path'', JStr (avatar_path s)),
           (''evidence_text'', JStr (evidence_text s)),
           (''thread_id'', JStr (s_thread_id s))]"

definition opt_str_json :: "string option \<Rightarrow> json" where
  "opt_str_json n = (case n of None \<Rightarrow> JNull | Some t \<Rightarrow> JStr t)"

definition serialize_plan :: "RemovalPlan \<Rightarrow> json" where
  "serialize_plan p =
     JObj [(''suspects'', JArr (map serialize_suspect (suspects p))),
           (''confirmed'', JBool (confirmed p)),
           (''note'', opt_str_json (plan_note p))]"

text \<open>\<open>dataclasses.asdict\<close> of a GroupThread.\<close>

definition asdict_thread :: "GroupThread \<Rightarrow> json" where
  "asdict_thread t =
     JObj [(''name'', JStr (name t)),
           (''thread_id'', JStr (thread_id t)),
           (''unread'', JBool (unread t)),
           (''is_group'', JBool (is_group t))]"

text \<open>A RemovalPlan object is always true in \<open>... if state.plan else None\<close>: the
  dataclass defines neither \<open>__bool__\<close> nor \<open>__len__\<close>.\<close>

definition opt_plan_json :: "RemovalPlan option \<Rightarrow> json" where
  "opt_plan_json p = (case p of None \<Rightarrow> JNull | Some q \<Rightarrow> serialize_plan q)"

definition serialize_state :: "PanelState \<Rightarrow> json" where
  "serialize_state st =
     JObj [(''threads'', JArr (map asdict_thread (threads st))),
           (''unread_groups'', JArr (map asdict_thread (unread_groups st))),
           (''current_thread_index'', JInt (current_thread_index st)),
           (''current_group_suspects'', JArr (map serialize_suspect (current_group_suspects st))),
           (''current_group_plan'', opt_plan_json (current_group_plan st)),
           (''all_suspects'', JArr (map serialize_suspect (all_suspects st))),
           (''all_plans'', JArr (map serialize_plan (all_plans st))),
           (''suspects'', JArr (map serialize_suspect (legacy_suspects st))),
           (''plan'', opt_plan_json (legacy_plan st)),
           (''step_logs'', JObj (map (\<lambda>kv. (fst kv, JStr (snd kv))) (step_logs st)))]"

definition deserialize_suspect :: "env \<Rightarrow> json \<Rightarrow> py_error + Suspect" where
  "deserialize_suspect E s =
     bindR (bindR (py_getitem s ''sender_id'') as_str) (\<lambda>sid.
     bindR (bindR (py_getitem s ''sender_name'') as_str) (\<lambda>sname.
     bindR (bindR (py_get s ''avatar_path'' (JStr '''')) (as_path E)) (\<lambda>ap.
     bindR (bindR (py_get s ''evidence_text'' (JStr '''')) as_str) (\<lambda>ev.
     bindR (bindR (py_get s ''thread_id'' (JStr '''')) as_str) (\<lambda>tid.
     Inr \<lparr>sender_id = sid, sender_name = sname, avatar_path = ap,
          evidence_text = ev, s_thread_id = tid\<rparr>)))))"

definition deserialize_plan :: "env \<Rightarrow> json \<Rightarrow> py_error + RemovalPlan" where
  "deserialize_plan E d =
     bindR (bindR (bindR (py_get d ''suspects'' (JArr [])) py_iter) (mapR (deserialize_suspect E))) (\<lambda>ss.
     bindR (bindR (py_get d ''confirmed'' (JBool False)) as_bool) (\<lambda>c.
     bindR (bindR (py_get d ''note'' JNull) as_opt_str) (\<lambda>n.
     Inr \<lparr>suspects = ss, confirmed = c, plan_note = n\<rparr>)))"

text \<open>The GroupThread built from one record of a snapshot or of a manual load:
  \<open>is_group=t.get("is_group", True)\<close>.\<close>

definition deserialize_thread :: "json \<Rightarrow> py_error + GroupThread" where
  "deserialize_thread t =
     bindR (bindR (py_getitem t ''name'') as_str) (\<lambda>n.
     bindR (bindR (py_getitem t ''thread_id'') as_str) (\<lambda>tid.
     bindR (bindR (py_getitem t ''unread'') as_bool) (\<lambda>u.
     bindR (bindR (py_get t ''is_group'' (JBool True)) as_bool) (\<lambda>g.
     Inr \<lparr>name = n, thread_id = tid, unread = u, is_group = g\<rparr>))))"

text \<open>\<open>_deserialize_plan(d) if d else None\<close>.\<close>

definition deserialize_opt_plan :: "env \<Rightarrow> json \<Rightarrow> py_error + RemovalPlan option" where
  "deserialize_opt_plan E d =
     (if truthy d then bindR (deserialize_plan E d) (\<lambda>p. Inr (Some p)) else Inr None)"

definition deserialize_logs :: "json \<Rightarrow> py_error + (string \<times> string) list" where
  "deserialize_logs d =
     (case d of
        JObj kvs \<Rightarrow> mapR (\<lambda>kv. bindR (as_str (snd kv)) (\<lambda>v. Inr (fst kv, v))) kvs
      | _ \<Rightarrow> Inl IllTyped)"

definition deserialize_state :: "env \<Rightarrow> json \<Rightarrow> py_error + PanelState" where
  "deserialize_state E data =
     bindR (bindR (bindR (py_get data ''threads'' (JArr [])) py_iter) (mapR deserialize_thread)) (\<lambda>ths.
     bindR (bindR (bindR (py_get data ''unread_groups'' (JArr [])) py_iter) (mapR deserialize_thread)) (\<lambda>ugs.
     bindR (bindR (bindR (py_get data ''current_group_suspects'' (JArr [])) py_iter)
              (mapR (deserialize_suspect E))) (\<lambda>cgs.
     bindR (bindR (py_get data ''current_group_plan'' JNull) (deserialize_opt_plan E)) (\<lambda>cgp.
     bindR (bindR (bindR (py_get data ''all_suspects'' (JArr [])) py_iter)
              (mapR (deserialize_suspect E))) (\<lambda>alls.
     bindR (bindR (bindR (py_get data ''all_plans'' (JArr [])) py_iter)
              (mapR (deserialize_plan E))) (\<lambda>allp.
     bindR (bindR (bindR (py_get data ''suspects'' (JArr [])) py_iter)
              (mapR (deserialize_suspect E))) (\<lambda>ss.
     bindR (bindR (py_get data ''plan'' JNull) (deserialize_opt_plan E)) (\<lambda>pl.
     bindR (bindR (py_get data ''current_thread_index'' (JInt 0)) as_int) (\<lambda>idx.
     bindR (bindR (py_get data ''step_logs'' (JObj [])) deserialize_logs) (\<lambda>logs.
     Inr \<lparr>threads = ths, unread_groups = ugs, current_thread_index = idx,
          current_group_suspects = cgs, current_group_plan = cgp,
          all_suspects = alls, all_plans = allp,
          legacy_suspects = ss, legacy_plan = pl, step_logs = logs\<rparr>))))))))))"


section \<open>Pure workflow modules (modules/*.py)\<close>

definition filter_unread_groups :: "GroupThread list \<Rightarrow> GroupThread list" where
  "filter_unread_groups ths = filter (\<lambda>t. is_group t \<and> unread t) ths"

definition build_removal_plan :: "Suspect list \<Rightarrow> string option \<Rightarrow> RemovalPlan" where
  "build_removal_plan ss n = \<lparr>suspects = ss, confirmed = False, plan_note = n\<rparr>"

definition classify_item :: "env \<Rightarrow> json \<Rightarrow> py_error + GroupThread" where
  "classify_item E item =
     bindR (py_get item ''name'' (JStr '''')) (\<lambda>n.
     bindR (py_get item ''thread_id'' (JStr '''')) (\<lambda>tid.
     bindR (py_get item ''unread'' (JBool False)) (\<lambda>u.
     bindR (py_get item ''is_group'' (JBool False)) (\<lambda>g.
     Inr \<lparr>name = py_str E n, thread_id = py_str E tid,
          unread = truthy u, is_group = truthy g\<rparr>))))"

definition parse_classification :: "env \<Rightarrow> string \<Rightarrow> py_error + GroupThread list" where
  "parse_classification E text_output =
     bindR (json_loads E text_output) (\<lambda>payload.
     bindR (py_get payload ''threads'' (JArr [])) (\<lambda>raw_threads.
     bindR (py_iter raw_threads) (mapR (classify_item E))))"

definition suspect_item :: "env \<Rightarrow> GroupThread \<Rightarrow> string \<Rightarrow> json \<Rightarrow> py_error + Suspect" where
  "suspect_item E thread ap item =
     bindR (py_get item ''sender_id'' (JStr '''')) (\<lambda>sid.
     bindR (py_get item ''sender_name'' (JStr '''')) (\<lambda>sname.
     bindR (py_get item ''evidence_text'' (JStr '''')) (\<lambda>ev.
     Inr \<lparr>sender_id = py_str E sid, sender_name = py_str E sname, avatar_path = ap,
          evidence_text = py_str E ev, s_thread_id = thread_id thread\<rparr>)))"

definition extract_suspects ::
  "env \<Rightarrow> GroupThread \<Rightarrow> string \<Rightarrow> string list \<Rightarrow> py_error + Suspect list" where
  "extract_suspects E thread text_output screenshot_paths =
     bindR (json_loads E text_output) (\<lambda>payload.
     bindR (py_get payload ''suspects'' (JArr [])) (\<lambda>entries.
     bindR (py_iter entries)
       (mapR (suspect_item E thread
                (if screenshot_paths \<noteq> [] then last screenshot_paths else mkPath E '''')))))"


text \<open>
  \<open>save_state\<close>. The snapshot file \<open>artifacts/panel_state.json\<close> is modelled by the
  document \<open>save_state\<close> serializes into it (\<open>None\<close>: no file). The JSON text of that
  document, its encoding as UTF-8 and the reading back by \<open>load_state\<close> are not
  modelled, and nothing below rests on them.
\<close>

definition save_state :: "PanelState \<Rightarrow> json option \<Rightarrow> json option" where
  "save_state st disk = Some (serialize_state st)"


section \<open>The control panel (control\_panel.py)\<close>

text \<open>
  What the operator sees is a list of events: log lines (without their time stamp),
  message boxes with title and message, and the status label. An exception that leaves a
  Tk callback is reported by Tk and the main loop goes on; the event \<open>Uncaught\<close> records
  it, with the panel as the callback left it. The summary label, which only displays the
  state, is not modelled.
\<close>

datatype ui_event =
    Log string
  | ShowWarning string string
  | ShowInfo string string
  | ShowError string string
  | SetStatus string
  | Uncaught py_error

text \<open>The three files of the step channel under \<open>artifacts/\<close>: \<open>.step_request\<close>,
  \<open>.step_status\<close> and \<open>.step_result\<close>; \<open>None\<close> is a file that does not exist.\<close>

record step_files =
  request_file :: "string option"
  status_file :: "string option"
  result_file :: "string option"

text \<open>The panel: its in-memory state, the snapshot file, whether it holds a handle of the
  worker process (\<open>self.workflow_process\<close> is not \<open>None\<close>), the channel files and the
  events shown so far.\<close>

record panel =
  state :: PanelState
  state_file :: "json option"
  workflow_process :: bool
  files :: step_files
  ui :: "ui_event list"

definition log :: "string \<Rightarrow> panel \<Rightarrow> panel" where
  "log msg p = p\<lparr>ui := ui p @ [Log msg]\<rparr>"

definition set_status :: "string \<Rightarrow> panel \<Rightarrow> panel" where
  "set_status s p = p\<lparr>ui := ui p @ [SetStatus s]\<rparr>"

definition show_warning :: "string \<Rightarrow> string \<Rightarrow> panel \<Rightarrow> panel" where
  "show_warning title msg p = p\<lparr>ui := ui p @ [ShowWarning title msg]\<rparr>"

definition show_info :: "string \<Rightarrow> string \<Rightarrow> panel \<Rightarrow> panel" where
  "show_info title msg p = p\<lparr>ui := ui p @ [ShowInfo title msg]\<rparr>"

definition show_error :: "string \<Rightarrow> string \<Rightarrow> panel \<Rightarrow> panel" where
  "show_error title msg p = p\<lparr>ui := ui p @ [ShowError title msg]\<rparr>"

definition uncaught :: "py_error \<Rightarrow> panel \<Rightarrow> panel" where
  "uncaught e p = p\<lparr>ui := ui p @ [Uncaught e]\<rparr>"

definition nl :: string where
  "nl = [CHR 0x0A]"

text \<open>\<open>ControlPanel._save_state\<close>.\<close>

definition save_panel :: "panel \<Rightarrow> panel" where
  "save_panel p = p\<lparr>state_file := save_state (state p) (state_file p)\<rparr>"

text \<open>The \<open>except Exception as e: messagebox.showerror(...)\<close> of the manual loads.\<close>

definition load_failed :: "env \<Rightarrow> string \<Rightarrow> py_error \<Rightarrow> panel \<Rightarrow> panel" where
  "load_failed E what e p =
     (if e = IllTyped then uncaught e p
      else show_error ''Error'' (''Failed to parse '' @ what @ '': '' @ exn_str E e) p)"

text \<open>The manual loads take \<open>dialog.result\<close>: the decoded JSON the operator supplied,
  \<open>None\<close> when the dialog was cancelled.\<close>

definition load_threads :: "env \<Rightarrow> json \<Rightarrow> panel \<Rightarrow> panel" where
  "load_threads E result p =
     (if truthy result then
        (case bindR (py_iter result) (mapR deserialize_thread) of
           Inl e \<Rightarrow> load_failed E ''threads'' e p
         | Inr ths \<Rightarrow>
             let p = p\<lparr>state := (state p)\<lparr>threads := ths\<rparr>\<rparr>;
                 p = save_panel p
             in log (''Loaded '' @ str_nat (length (threads (state p))) @ '' threads manually.'') p)
      else p)"

definition load_groups :: "env \<Rightarrow> json \<Rightarrow> panel \<Rightarrow> panel" where
  "load_groups E result p =
     (if truthy result then
        (case bindR (py_iter result) (mapR deserialize_thread) of
           Inl e \<Rightarrow> load_failed E ''groups'' e p
         | Inr gs \<Rightarrow>
             let p = p\<lparr>state := (state p)\<lparr>unread_groups := gs\<rparr>\<rparr>;
                 p = p\<lparr>state := (state p)\<lparr>current_thread_index := 0\<rparr>\<rparr>;
                 p = save_panel p
             in log (''Loaded '' @ str_nat (length (unread_groups (state p)))
                       @ '' unread groups manually.'') p)
      else p)"

text \<open>\<open>d.items()\<close>.\<close>

fun py_items :: "json \<Rightarrow> py_error + (string \<times> json) list" where
  "py_items (JObj kvs) = Inr kvs"
| "py_items _ = Inl AttributeError"

text \<open>The loop of \<open>_load_read_results\<close> over \<open>read_results.items()\<close>. It assigns into
  \<open>step_logs\<close> as it goes, so what it stored before an exception stays stored.\<close>

fun read_results_loop ::
  "env \<Rightarrow> (string \<times> json) list \<Rightarrow> PanelState \<Rightarrow> py_error option \<times> PanelState" where
  "read_results_loop E [] st = (None, st)"
| "read_results_loop E ((tid, r) # rest) st =
     (case bindR (py_get r ''text'' (JStr '''')) as_str of
        Inl e \<Rightarrow> (Some e, st)
      | Inr txt \<Rightarrow>
          let st = st\<lparr>step_logs := dict_set (step_logs st) (''read_'' @ tid) txt\<rparr> in
          (case py_get r ''screenshots'' (JArr []) of
             Inl e \<Rightarrow> (Some e, st)
           | Inr shots \<Rightarrow>
               read_results_loop E rest
                 (st\<lparr>step_logs := dict_set (step_logs st) (''read_'' @ tid @ ''_screenshots'')
                                     (json_dumps E shots)\<rparr>)))"

definition load_read_results :: "env \<Rightarrow> json \<Rightarrow> panel \<Rightarrow> panel" where
  "load_read_results E result p =
     (if truthy result then
        (case bindR (bindR (py_get result ''threads'' (JArr [])) py_iter) (mapR deserialize_thread) of
           Inl e \<Rightarrow> load_failed E ''read results'' e p
         | Inr gs \<Rightarrow>
             let p = p\<lparr>state := (state p)\<lparr>unread_groups := gs\<rparr>\<rparr> in
             (case bindR (py_get result ''read_results'' (JObj [])) py_items of
                Inl e \<Rightarrow> load_failed E ''read results'' e p
              | Inr items \<Rightarrow>
                  (case read_results_loop E items (state p) of
                     (Some e, st) \<Rightarrow> load_failed E ''read results'' e (p\<lparr>state := st\<rparr>)
                   | (None, st) \<Rightarrow>
                       log ''Loaded read results manually.'' (save_panel (p\<lparr>state := st\<rparr>)))))
      else p)"

definition load_suspect_item :: "env \<Rightarrow> json \<Rightarrow> py_error + Suspect" where
  "load_suspect_item E s =
     bindR (bindR (py_getitem s ''sender_id'') as_str) (\<lambda>sid.
     bindR (bindR (py_getitem s ''sender_name'') as_str) (\<lambda>sname.
     bindR (bindR (py_get s ''avatar_path'' (JStr '''')) (as_path E)) (\<lambda>ap.
     bindR (bindR (py_getitem s ''evidence_text'') as_str) (\<lambda>ev.
     bindR (bindR (py_getitem s ''thread_id'') as_str) (\<lambda>tid.
     Inr \<lparr>sender_id = sid, sender_name = sname, avatar_path = ap,
          evidence_text = ev, s_thread_id = tid\<rparr>)))))"

definition load_suspects :: "env \<Rightarrow> json \<Rightarrow> panel \<Rightarrow> panel" where
  "load_suspects E result p =
     (if truthy result then
        (case bindR (py_iter result) (mapR (load_suspect_item E)) of
           Inl e \<Rightarrow> load_failed E ''suspects'' e p
         | Inr ss \<Rightarrow>
             let p = p\<lparr>state := (state p)\<lparr>current_group_suspects := ss\<rparr>\<rparr>;
                 p = save_panel p
             in log (''Loaded '' @ str_nat (length (current_group_suspects (state p)))
                       @ '' suspects manually (for current group).'') p)
      else p)"

definition load_plan :: "env \<Rightarrow> json \<Rightarrow> panel \<Rightarrow> panel" where
  "load_plan E result p =
     (if truthy result then
        (case bindR (bindR (bindR (py_get result ''suspects'' (JArr [])) py_iter)
                       (mapR (deserialize_suspect E))) (\<lambda>ss.
              bindR (bindR (py_get result ''confirmed'' (JBool False)) as_bool) (\<lambda>c.
              bindR (bindR (py_get result ''note'' (JStr '''')) as_opt_str) (\<lambda>n.
              Inr \<lparr>suspects = ss, confirmed = c, plan_note = n\<rparr>))) of
           Inl e \<Rightarrow> load_failed E ''plan'' e p
         | Inr pl \<Rightarrow>
             let p = p\<lparr>state := (state p)\<lparr>current_group_plan := Some pl\<rparr>\<rparr>;
                 p = save_panel p
             in log (''Loaded removal plan with '' @ str_nat (length (suspects pl))
                       @ '' suspects manually (for current group).'') p)
      else p)"

text \<open>
  \<open>_request_agent_step\<close>. \<open>exited\<close> is what \<open>self.workflow_process.poll()\<close> returns: the
  exit code of a worker that has stopped, \<open>None\<close> while it runs. The request is written
  in either case. File names are logged relative to the project root.
\<close>

definition request_agent_step :: "env \<Rightarrow> int option \<Rightarrow> string \<Rightarrow> json \<Rightarrow> panel \<Rightarrow> panel" where
  "request_agent_step E exited step params p =
     (let p = (if workflow_process p then
                 (case exited of
                    None \<Rightarrow> p
                  | Some code \<Rightarrow>
                      (log (''WARNING: Workflow process has exited (code '' @ str_int code @ '')'') p)
                        \<lparr>workflow_process := False\<rparr>)
               else p);
          request_data = JObj [(''step'', JStr step), (''params'', params)];
          p = log ''Writing request to: artifacts/.step_request'' p;
          p = log (''  Request data: '' @ json_dumps E request_data) p;
          p = p\<lparr>files := (files p)\<lparr>request_file := Some (json_dumps E request_data)\<rparr>\<rparr>;
          p = log (''Sent request for step: '' @ step) p
      in log ''  Waiting for response (status file: artifacts/.step_status)...'' p)"

definition on_agent_error :: "string \<Rightarrow> panel \<Rightarrow> panel" where
  "on_agent_error err p = log (''Agent error: '' @ err) (set_status ''Error'' p)"

definition run_classify :: "env \<Rightarrow> int option \<Rightarrow> panel \<Rightarrow> panel" where
  "run_classify E exited p =
     (if \<not> workflow_process p then
        show_warning ''Workflow Not Running'' ''Start the workflow backend first.'' p
      else
        let p = set_status ''Running: Classify Threads'' p;
            p = log ''Starting thread classification...'' p
        in request_agent_step E exited ''classify'' (JObj []) p)"

definition on_classify_result :: "env \<Rightarrow> json \<Rightarrow> panel \<Rightarrow> panel" where
  "on_classify_result E result p =
     (case bindR (py_get result ''text'' (JStr '''')) as_str of
        Inl e \<Rightarrow> uncaught e p
      | Inr text_output \<Rightarrow>
          let p = log (''Classification output: '' @ take 200 text_output @ ''...'') p in
          (case parse_classification E text_output of
             Inl e \<Rightarrow> set_status ''Error'' (log (''Parse error: '' @ exn_str E e) p)
           | Inr ths \<Rightarrow>
               let p = p\<lparr>state := (state p)\<lparr>threads := ths\<rparr>\<rparr>;
                   p = p\<lparr>state := (state p)\<lparr>step_logs :=
                          dict_set (step_logs (state p)) ''classify'' text_output\<rparr>\<rparr>;
                   p = save_panel p;
                   p = log (''Parsed '' @ str_nat (length (threads (state p))) @ '' threads.'') p
               in set_status ''Ready'' p))"

definition run_filter :: "panel \<Rightarrow> panel" where
  "run_filter p =
     (if threads (state p) = [] then
        show_warning ''Missing Data'' ''Run 'Classify Threads' first or load threads manually.'' p
      else
        let p = set_status ''Running: Filter Unread'' p;
            p = log ''Filtering unread groups...'' p;
            p = p\<lparr>state := (state p)\<lparr>unread_groups := filter_unread_groups (threads (state p))\<rparr>\<rparr>;
            p = p\<lparr>state := (state p)\<lparr>current_thread_index := 0\<rparr>\<rparr>;
            p = save_panel p;
            p = log (''Found '' @ str_nat (length (unread_groups (state p))) @ '' unread group(s).'') p;
            p = foldl (\<lambda>q g. log (''  - '' @ name g @ '' (id='' @ thread_id g @ '')'') q) p
                  (unread_groups (state p))
        in set_status ''Ready'' p)"

text \<open>The prefix \<open>[Group i/n]\<close> of the per-group log lines.\<close>

definition group_tag :: "int \<Rightarrow> GroupThread list \<Rightarrow> string" where
  "group_tag idx gs = ''[Group '' @ str_int (idx + 1) @ ''/'' @ str_nat (length gs) @ ''] ''"

definition run_read_messages :: "env \<Rightarrow> int option \<Rightarrow> panel \<Rightarrow> panel" where
  "run_read_messages E exited p =
     (if \<not> workflow_process p then
        show_warning ''Workflow Not Running'' ''Start the workflow backend first.'' p
      else if unread_groups (state p) = [] then
        show_warning ''Missing Data'' ''Run 'Filter Unread' first or load groups manually.'' p
      else
        let idx = current_thread_index (state p) in
        if idx \<ge> int (length (unread_groups (state p))) then
          show_info ''Complete'' ''All unread groups processed.'' p
        else
          let p = p\<lparr>state := (state p)\<lparr>current_group_suspects := []\<rparr>\<rparr>;
              p = p\<lparr>state := (state p)\<lparr>current_group_plan := None\<rparr>\<rparr>;
              p = save_panel p
          in (case py_nth (unread_groups (state p)) idx of
                Inl e \<Rightarrow> uncaught e p
              | Inr thread \<Rightarrow>
                  let p = set_status (''Running: Read Messages ('' @ name thread @ '')'') p;
                      p = log (group_tag idx (unread_groups (state p))
                                 @ ''Reading messages from: '' @ name thread) p
                  in request_agent_step E exited ''read_messages''
                       (JObj [(''thread_id'', JStr (thread_id thread)),
                              (''thread_name'', JStr (name thread))]) p))"

definition on_read_result :: "env \<Rightarrow> json \<Rightarrow> panel \<Rightarrow> panel" where
  "on_read_result E result p =
     (case bindR (py_get result ''text'' (JStr '''')) as_str of
        Inl e \<Rightarrow> uncaught e p
      | Inr text_output \<Rightarrow>
          (case py_get result ''screenshots'' (JArr []) of
             Inl e \<Rightarrow> uncaught e p
           | Inr screenshots \<Rightarrow>
               let p = log (''Read result: '' @ take 200 text_output @ ''...'') p;
                   idx = current_thread_index (state p)
               in (case py_nth (unread_groups (state p)) idx of
                     Inl e \<Rightarrow> uncaught e p
                   | Inr thread \<Rightarrow>
                       let p = p\<lparr>state := (state p)\<lparr>step_logs :=
                                  dict_set (step_logs (state p)) (''read_'' @ thread_id thread)
                                    text_output\<rparr>\<rparr>;
                           p = p\<lparr>state := (state p)\<lparr>step_logs :=
                                  dict_set (step_logs (state p))
                                    (''read_'' @ thread_id thread @ ''_screenshots'')
                                    (json_dumps E screenshots)\<rparr>\<rparr>;
                           p = save_panel p;
                           p = log (''Read complete for '' @ name thread
                                      @ ''. Proceed to Extract Suspects.'') p
                       in set_status ''Ready'' p)))"

text \<open>\<open>[Path(p) for p in json.loads(screenshots_json)]\<close>, which \<open>_run_extract\<close>
  evaluates outside its \<open>try\<close>.\<close>

definition screenshot_paths_of :: "env \<Rightarrow> string \<Rightarrow> py_error + string list" where
  "screenshot_paths_of E screenshots_json =
     bindR (bindR (json_loads E screenshots_json) py_iter) (mapR (as_path E))"

definition run_extract :: "env \<Rightarrow> panel \<Rightarrow> panel" where
  "run_extract E p =
     (if unread_groups (state p) = [] then
        show_warning ''Missing Data'' ''Run 'Read Messages' first or load read results manually.'' p
      else
        let idx = current_thread_index (state p) in
        if idx \<ge> int (length (unread_groups (state p))) then
          show_info ''Complete'' ''All unread groups processed.'' p
        else
          (case py_nth (unread_groups (state p)) idx of
             Inl e \<Rightarrow> uncaught e p
           | Inr thread \<Rightarrow>
               let p = set_status (''Running: Extract Suspects ('' @ name thread @ '')'') p;
                   p = log (group_tag idx (unread_groups (state p))
                              @ ''Extracting suspects from: '' @ name thread) p;
                   text_key = ''read_'' @ thread_id thread;
                   screenshots_key = ''read_'' @ thread_id thread @ ''_screenshots'';
                   text_output = dict_get (step_logs (state p)) text_key ''{}''
               in if text_output = ''{}'' then
                    show_warning ''Missing Data''
                      (''No read results for '' @ name thread @ ''. Run 'Read Messages' first.'') p
                  else
                    (case screenshot_paths_of E
                            (dict_get (step_logs (state p)) screenshots_key ''[]'') of
                       Inl e \<Rightarrow> uncaught e p
                     | Inr screenshot_paths \<Rightarrow>
                         set_status ''Ready''
                           (case extract_suspects E thread text_output screenshot_paths of
                              Inl e \<Rightarrow> log (''Parse error: '' @ exn_str E e) p
                            | Inr ss \<Rightarrow>
                                let p = p\<lparr>state := (state p)\<lparr>current_group_suspects := ss\<rparr>\<rparr>;
                                    p = save_panel p;
                                    p = log (''Found '' @ str_nat (length ss) @ '' suspect(s) in ''
                                               @ name thread @ '':'') p
                                in foldl (\<lambda>q s. log (''  - '' @ sender_name s @ '': ''
                                                        @ take 50 (evidence_text s) @ ''...'') q)
                                     p ss))))"

definition run_build_plan :: "panel \<Rightarrow> panel" where
  "run_build_plan p =
     (let idx = current_thread_index (state p) in
      if idx \<ge> int (length (unread_groups (state p))) then
        show_info ''Complete'' ''All unread groups processed.'' p
      else
        (case py_nth (unread_groups (state p)) idx of
           Inl e \<Rightarrow> uncaught e p
         | Inr thread \<Rightarrow>
             if current_group_suspects (state p) = [] then
               show_warning ''Missing Data''
                 (''No suspects found for '' @ name thread @ ''. Run 'Extract Suspects' first.'') p
             else
               let p = set_status (''Running: Build Plan ('' @ name thread @ '')'') p;
                   p = log (group_tag idx (unread_groups (state p))
                              @ ''Building removal plan for: '' @ name thread) p;
                   pl = build_removal_plan (current_group_suspects (state p)) None;
                   p = p\<lparr>state := (state p)\<lparr>current_group_plan := Some pl\<rparr>\<rparr>;
                   p = save_panel p;
                   p = log (''Plan created with '' @ str_nat (length (suspects pl))
                              @ '' suspect(s).'') p
               in set_status ''Ready'' p))"

text \<open>
  \<open>_advance_to_next_group\<close>. \<open>if self.state.current_group_plan:\<close> is true of every plan
  object. The legacy plan is rebuilt only under \<open>if self.state.all_plans:\<close>.
\<close>

definition merged_plan :: "RemovalPlan list \<Rightarrow> RemovalPlan" where
  "merged_plan ps =
     \<lparr>suspects = foldl (\<lambda>acc q. acc @ suspects q) [] ps,
      confirmed = True,
      plan_note = Some (''Processed '' @ str_nat (length ps) @ '' group(s)'')\<rparr>"

definition advance_state :: "PanelState \<Rightarrow> PanelState" where
  "advance_state st0 =
     (let st = st0\<lparr>all_suspects := all_suspects st0 @ current_group_suspects st0\<rparr>;
          st = (case current_group_plan st of
                  None \<Rightarrow> st
                | Some pl \<Rightarrow> st\<lparr>all_plans := all_plans st @ [pl]\<rparr>);
          st = st\<lparr>legacy_suspects := all_suspects st\<rparr>;
          st = (if all_plans st \<noteq> [] then st\<lparr>legacy_plan := Some (merged_plan (all_plans st))\<rparr>
                else st);
          st = st\<lparr>current_thread_index := current_thread_index st + 1\<rparr>;
          st = st\<lparr>current_group_suspects := []\<rparr>
      in st\<lparr>current_group_plan := None\<rparr>)"

definition advance_to_next_group :: "panel \<Rightarrow> panel" where
  "advance_to_next_group p0 =
     (let p = save_panel (p0\<lparr>state := advance_state (state p0)\<rparr>);
          remaining = int (length (unread_groups (state p))) - current_thread_index (state p)
      in if remaining > 0 then
           (case py_nth (unread_groups (state p)) (current_thread_index (state p)) of
              Inl e \<Rightarrow> uncaught e p
            | Inr next_group \<Rightarrow>
                let p = log (''Advanced to next group. '' @ str_int remaining
                               @ '' group(s) remaining.'') p;
                    p = log (''Next group: '' @ name next_group
                               @ ''. Click 'Read Messages' to continue.'') p
                in show_info ''Group Complete''
                     (''Finished processing current group.'' @ nl @ nl
                        @ str_int remaining @ '' group(s) remaining.'' @ nl
                        @ ''Next: '' @ name next_group @ nl @ nl
                        @ ''Click 'Read Messages' to continue.'') p)
         else
           let p = log ''All groups processed!'' p;
               p = log (''Total suspects found: '' @ str_nat (length (all_suspects (state p)))) p;
               p = log (''Total plans executed: '' @ str_nat (length (all_plans (state p)))) p
           in show_info ''Workflow Complete''
                (''All '' @ str_nat (length (unread_groups (state p))) @ '' group(s) processed!''
                   @ nl @ nl
                   @ ''Total suspects: '' @ str_nat (length (all_suspects (state p))) @ nl
                   @ ''Click 'Export Report' to save results.'') p)"

text \<open>
  \<open>_run_removal\<close>. \<open>confirm\<close> is the operator's answer to the confirmation dialog, which
  is shown only for a plan with suspects.
\<close>

definition removal_params :: "RemovalPlan \<Rightarrow> json" where
  "removal_params pl =
     JObj [(''suspects'',
            JArr (map (\<lambda>s. JObj [(''sender_id'', JStr (sender_id s)),
                                   (''sender_name'', JStr (sender_name s)),
                                   (''thread_id'', JStr (s_thread_id s))])
                    (suspects pl)))]"

definition run_removal :: "env \<Rightarrow> bool \<Rightarrow> int option \<Rightarrow> panel \<Rightarrow> panel" where
  "run_removal E confirm exited p =
     (if \<not> workflow_process p then
        show_warning ''Workflow Not Running'' ''Start the workflow backend first.'' p
      else
        let idx = current_thread_index (state p) in
        if idx \<ge> int (length (unread_groups (state p))) then
          show_info ''Complete'' ''All unread groups processed.'' p
        else
          (case py_nth (unread_groups (state p)) idx of
             Inl e \<Rightarrow> uncaught e p
           | Inr thread \<Rightarrow>
               (case current_group_plan (state p) of
                  None \<Rightarrow>
                    show_warning ''Missing Data''
                      (''Run 'Build Plan' first for '' @ name thread @ ''.'') p
                | Some pl \<Rightarrow>
                    if suspects pl = [] then
                      advance_to_next_group
                        (log (''No suspects in '' @ name thread @ ''. Advancing to next group.'') p)
                    else if \<not> confirm then
                      advance_to_next_group
                        (log ''Removal cancelled by user. Advancing to next group.'' p)
                    else
                      let pl = pl\<lparr>confirmed := True\<rparr>;
                          p = p\<lparr>state := (state p)\<lparr>current_group_plan := Some pl\<rparr>\<rparr>;
                          p = save_panel p;
                          p = set_status (''Running: Execute Removal ('' @ name thread @ '')'') p;
                          p = log (group_tag idx (unread_groups (state p))
                                     @ ''Executing removal for: '' @ name thread) p
                      in request_agent_step E exited ''remove'' (removal_params pl) p)))"

definition on_removal_result :: "env \<Rightarrow> json \<Rightarrow> panel \<Rightarrow> panel" where
  "on_removal_result E result p =
     (case bindR (py_get result ''text'' (JStr '''')) as_str of
        Inl e \<Rightarrow> uncaught e p
      | Inr text_output \<Rightarrow>
          (case py_nth (unread_groups (state p)) (current_thread_index (state p)) of
             Inl e \<Rightarrow> uncaught e p
           | Inr thread \<Rightarrow>
               let p = log (''Removal result for '' @ name thread @ '': '' @ text_output) p;
                   p = (case current_group_plan (state p) of
                          None \<Rightarrow> p
                        | Some pl \<Rightarrow>
                            p\<lparr>state := (state p)\<lparr>current_group_plan :=
                                 Some (pl\<lparr>plan_note := Some text_output\<rparr>)\<rparr>\<rparr>);
                   p = p\<lparr>state := (state p)\<lparr>step_logs :=
                          dict_set (step_logs (state p)) (''removal_'' @ thread_id thread)
                            text_output\<rparr>\<rparr>;
                   p = save_panel p;
                   p = advance_to_next_group p
               in set_status ''Ready'' p))"

text \<open>
  One round of the polling thread of \<open>_poll_agent_result\<close>, on the channel files as it
  finds them. \<open>str.strip\<close> removes the white space of ASCII on both sides. A thread that
  an exception leaves dies: nothing after the raising statement runs.
\<close>

definition is_space :: "char \<Rightarrow> bool" where
  "is_space c = (c \<in> set [CHR '' '', CHR 0x09, CHR 0x0A, CHR 0x0B, CHR 0x0C, CHR 0x0D,
                            CHR 0x1C, CHR 0x1D, CHR 0x1E, CHR 0x1F])"

definition strip :: "string \<Rightarrow> string" where
  "strip s = rev (dropWhile is_space (rev (dropWhile is_space s)))"

datatype poll_result =
    Waiting
  | Delivered json
  | AgentError string
  | ThreadDied py_error

definition poll_files :: "env \<Rightarrow> step_files \<Rightarrow> poll_result \<times> step_files \<times> string list" where
  "poll_files E f =
     (case status_file f of
        None \<Rightarrow> (Waiting, f, [])
      | Some raw \<Rightarrow>
          let status = strip raw;
              found = [''  Status file found: '' @ status] in
          if status = ''running'' then (Waiting, f, found @ [''  Agent is processing...''])
          else if status = ''complete'' \<and> result_file f \<noteq> None then
            (let result_text = the (result_file f);
                 lines = found @ [''  Result received ('' @ str_nat (length result_text)
                                    @ '' bytes)'']
             in case json_loads E result_text of
                  Inl e \<Rightarrow> (ThreadDied e, f, lines)
                | Inr result \<Rightarrow>
                    (Delivered result, f\<lparr>result_file := None, status_file := None\<rparr>, lines))
          else if status = ''error'' then
            (let error_msg = (case result_file f of None \<Rightarrow> ''Unknown error'' | Some t \<Rightarrow> t)
             in (AgentError error_msg, f\<lparr>result_file := None, status_file := None\<rparr>,
                 found @ [''  Error from agent: '' @ error_msg]))
          else (Waiting, f, found))"

text \<open>
  The same round on the panel. \<open>count\<close> is \<open>poll_count\<close> after its increment,
  \<open>elapsed\<close> the time since the thread started, in whole seconds, \<open>exited\<close> the worker's
  exit code if it has one. What the thread hands to the main loop (\<open>root.after\<close>) is
  applied at once, in the order it was handed over; \<open>callback\<close> is the step's result
  handler.
\<close>

definition poll_once ::
  "env \<Rightarrow> (json \<Rightarrow> panel \<Rightarrow> panel) \<Rightarrow> nat \<Rightarrow> nat \<Rightarrow> int option \<Rightarrow> panel \<Rightarrow> poll_result \<times> panel" where
  "poll_once E callback count elapsed exited p0 =
     (let p = (if count mod 20 = 0 then
                 log (''  Still waiting for response... ('' @ str_nat elapsed @ ''s elapsed)'') p0
               else p0)
      in if count mod 20 = 0 \<and> workflow_process p \<and> exited \<noteq> None then
           (AgentError ''Workflow process exited'',
            on_agent_error ''Workflow process exited''
              (log ''  ERROR: Workflow process exited unexpectedly!'' p))
         else if elapsed > 300 then
           (AgentError ''Timeout waiting for agent response'',
            on_agent_error ''Timeout waiting for agent response''
              (log ''  TIMEOUT: No response after 5 minutes'' p))
         else
           (case poll_files E (files p) of
              (r, f, lines) \<Rightarrow>
                let p = foldl (\<lambda>q l. log l q) p lines in
                (case r of
                   Waiting \<Rightarrow> (Waiting, p)
                 | Delivered result \<Rightarrow> (Delivered result, callback result (p\<lparr>files := f\<rparr>))
                 | AgentError msg \<Rightarrow> (AgentError msg, on_agent_error msg (p\<lparr>files := f\<rparr>))
                 | ThreadDied e \<Rightarrow> (ThreadDied e, p))))"


section \<open>The Plan step with list objects (control\_panel.py, modules/removal\_precheck.py)\<close>

text \<open>
  A Python list is an object, and \<open>build_removal_plan(self.state.current_group_suspects)\<close>
  hands the list object itself to the \<open>RemovalPlan\<close> constructor. Whether the plan's list
  is another object than the panel's cannot be read off the values, so this section keeps
  list objects in a store: an address names a list object, \<open>current_group_suspects\<close> and a
  plan's \<open>suspects\<close> hold addresses. All other fields are those of the panel \<open>rest\<close>,
  whose two per-group fields are read through the store by \<open>view\<close>.
\<close>

type_synonym addr = nat

record plan_obj =
  suspects_at :: addr
  confirmed_o :: bool
  note_o :: "string option"

record ref_panel =
  heap :: "addr \<Rightarrow> Suspect list option"
  cgs_at :: addr
  cgp :: "plan_obj option"
  rest :: panel

definition deref :: "(addr \<Rightarrow> Suspect list option) \<Rightarrow> addr \<Rightarrow> Suspect list" where
  "deref h a = (case h a of None \<Rightarrow> [] | Some xs \<Rightarrow> xs)"

definition plan_value :: "(addr \<Rightarrow> Suspect list option) \<Rightarrow> plan_obj \<Rightarrow> RemovalPlan" where
  "plan_value h po =
     \<lparr>suspects = deref h (suspects_at po), confirmed = confirmed_o po, plan_note = note_o po\<rparr>"

definition view_state :: "ref_panel \<Rightarrow> PanelState" where
  "view_state rp =
     (state (rest rp))
       \<lparr>current_group_suspects := deref (heap rp) (cgs_at rp),
        current_group_plan := map_option (plan_value (heap rp)) (cgp rp)\<rparr>"

definition view :: "ref_panel \<Rightarrow> panel" where
  "view rp = (rest rp)\<lparr>state := view_state rp\<rparr>"

text \<open>\<open>RemovalPlan(suspects=suspects, confirmed=False, note=note)\<close>: the field is bound to
  the argument, no list is created.\<close>

definition build_removal_plan_ref :: "addr \<Rightarrow> string option \<Rightarrow> plan_obj" where
  "build_removal_plan_ref a n = \<lparr>suspects_at = a, confirmed_o = False, note_o = n\<rparr>"

definition run_build_plan_ref :: "ref_panel \<Rightarrow> ref_panel" where
  "run_build_plan_ref rp =
     (let idx = current_thread_index (view_state rp);
          gs = unread_groups (view_state rp) in
      if idx \<ge> int (length gs) then
        rp\<lparr>rest := show_info ''Complete'' ''All unread groups processed.'' (rest rp)\<rparr>
      else
        (case py_nth gs idx of
           Inl e \<Rightarrow> rp\<lparr>rest := uncaught e (rest rp)\<rparr>
         | Inr thread \<Rightarrow>
             if deref (heap rp) (cgs_at rp) = [] then
               rp\<lparr>rest := show_warning ''Missing Data''
                   (''No suspects found for '' @ name thread @ ''. Run 'Extract Suspects' first.'')
                   (rest rp)\<rparr>
             else
               let rp = rp\<lparr>rest := set_status (''Running: Build Plan ('' @ name thread @ '')'')
                                      (rest rp)\<rparr>;
                   rp = rp\<lparr>rest := log (group_tag idx gs @ ''Building removal plan for: ''
                                           @ name thread) (rest rp)\<rparr>;
                   po = build_removal_plan_ref (cgs_at rp) None;
                   rp = rp\<lparr>cgp := Some po\<rparr>;
                   rp = rp\<lparr>rest := (rest rp)\<lparr>state_file :=
                               save_state (view_state rp) (state_file (rest rp))\<rparr>\<rparr>;
                   rp = rp\<lparr>rest := log (''Plan created with ''
                                           @ str_nat (length (deref (heap rp) (suspects_at po)))
                                           @ '' suspect(s).'') (rest rp)\<rparr>
               in rp\<lparr>rest := set_status ''Ready'' (rest rp)\<rparr>))"

text \<open>\<open>lst.append(x)\<close> on the list object at an address.\<close>

definition list_append_at :: "addr \<Rightarrow> Suspect \<Rightarrow> ref_panel \<Rightarrow> ref_panel" where
  "list_append_at a x rp = rp\<lparr>heap := (heap rp)(a := Some (deref (heap rp) a @ [x]))\<rparr>"


section \<open>The step worker (workflow/run\_wechat\_removal.py)\<close>

text \<open>
  The worker's view of the channel files, with the sequence of its file operations: the
  order of the writes is what the protocol rests on. \<open>HandlerStart\<close> marks the call of a
  step handler. Console output is not modelled.
\<close>

datatype file_op =
    WriteStatus string
  | WriteResult string
  | ClearRequest
  | HandlerStart string

record worker =
  wfiles :: step_files
  trace :: "file_op list"

definition write_status :: "string \<Rightarrow> worker \<Rightarrow> worker" where
  "write_status s w =
     w\<lparr>wfiles := (wfiles w)\<lparr>status_file := Some s\<rparr>, trace := trace w @ [WriteStatus s]\<rparr>"

definition write_text_result :: "string \<Rightarrow> worker \<Rightarrow> worker" where
  "write_text_result t w =
     w\<lparr>wfiles := (wfiles w)\<lparr>result_file := Some t\<rparr>, trace := trace w @ [WriteResult t]\<rparr>"

definition write_result :: "env \<Rightarrow> json \<Rightarrow> worker \<Rightarrow> worker" where
  "write_result E result w = write_text_result (json_dumps E result) w"

definition write_error :: "string \<Rightarrow> worker \<Rightarrow> worker" where
  "write_error err w = write_status ''error'' (write_text_result err w)"

definition clear_request :: "worker \<Rightarrow> worker" where
  "clear_request w =
     w\<lparr>wfiles := (wfiles w)\<lparr>request_file := None\<rparr>, trace := trace w @ [ClearRequest]\<rparr>"

text \<open>The result every handler writes: \<open>{"text": ..., "screenshots": [str(p), ...]}\<close>.\<close>

definition step_result :: "string \<Rightarrow> string list \<Rightarrow> json" where
  "step_result text_output screenshots =
     JObj [(''text'', JStr text_output), (''screenshots'', JArr (map JStr screenshots))]"

text \<open>A handler returns the exception that left it, if any, and the worker as it then
  is. The agent (\<open>run_vision_query\<close>, \<open>run_agent_task\<close>) gets the task the prompt
  describes, with the values as the f-string prints them.\<close>

definition finish_step :: "env \<Rightarrow> task \<Rightarrow> worker \<Rightarrow> py_error option \<times> worker" where
  "finish_step E t w =
     (case run_agent E t of
        Inl e \<Rightarrow> (Some e, w)
      | Inr (text_output, screenshots) \<Rightarrow>
          (None, write_status ''complete'' (write_result E (step_result text_output screenshots) w)))"

definition handle_classify :: "env \<Rightarrow> json \<Rightarrow> worker \<Rightarrow> py_error option \<times> worker" where
  "handle_classify E params w =
     finish_step E ClassifyTask (w\<lparr>trace := trace w @ [HandlerStart ''classify'']\<rparr>)"

definition handle_read_messages :: "env \<Rightarrow> json \<Rightarrow> worker \<Rightarrow> py_error option \<times> worker" where
  "handle_read_messages E params w0 =
     (let w = w0\<lparr>trace := trace w0 @ [HandlerStart ''read_messages'']\<rparr> in
      case bindR (py_get params ''thread_id'' (JStr '''')) (\<lambda>tid.
           bindR (py_get params ''thread_name'' (JStr '''')) (\<lambda>tname.
           Inr (ReadTask (py_str E tid) (py_str E tname)))) of
        Inl e \<Rightarrow> (Some e, w)
      | Inr t \<Rightarrow> finish_step E t w)"

text \<open>\<open>len(v)\<close>, which \<open>handle_remove\<close> prints before it reads the suspects.\<close>

fun py_len :: "json \<Rightarrow> py_error + nat" where
  "py_len (JArr xs) = Inr (length xs)"
| "py_len (JObj kvs) = Inr (length kvs)"
| "py_len (JStr s) = Inr (length s)"
| "py_len _ = Inl TypeError"

definition remove_item :: "env \<Rightarrow> json \<Rightarrow> py_error + (string \<times> string \<times> string)" where
  "remove_item E s =
     bindR (py_getitem s ''sender_id'') (\<lambda>sid.
     bindR (py_getitem s ''sender_name'') (\<lambda>sname.
     bindR (py_get s ''thread_id'' (JStr '''')) (\<lambda>tid.
     Inr (py_str E sid, py_str E sname, py_str E tid))))"

definition handle_remove :: "env \<Rightarrow> json \<Rightarrow> worker \<Rightarrow> py_error option \<times> worker" where
  "handle_remove E params w0 =
     (let w = w0\<lparr>trace := trace w0 @ [HandlerStart ''remove'']\<rparr> in
      case bindR (py_get params ''suspects'' (JArr [])) (\<lambda>suspects_data.
           bindR (py_len suspects_data) (\<lambda>n.
           bindR (py_iter suspects_data) (\<lambda>items.
           bindR (mapR (remove_item E) items) (\<lambda>ss. Inr (RemoveTask ss))))) of
        Inl e \<Rightarrow> (Some e, w)
      | Inr t \<Rightarrow> finish_step E t w)"

text \<open>\<open>process_request\<close>. The two \<open>request.get\<close> calls come before the \<open>try\<close>: on a
  request that is not a JSON object the exception leaves the function.\<close>

definition step_failed :: "env \<Rightarrow> py_error \<Rightarrow> string" where
  "step_failed E e = exn_name E e @ '': '' @ exn_str E e @ nl @ nl @ format_exc E e"

definition process_request :: "env \<Rightarrow> json \<Rightarrow> worker \<Rightarrow> py_error option \<times> worker" where
  "process_request E request w =
     (case bindR (py_get request ''step'' (JStr '''')) (\<lambda>step.
           bindR (py_get request ''params'' (JObj [])) (\<lambda>params. Inr (step, params))) of
        Inl e \<Rightarrow> (Some e, w)
      | Inr (step, params) \<Rightarrow>
          let w = write_status ''running'' w;
              r = (if step = JStr ''classify'' then handle_classify E params w
                   else if step = JStr ''read_messages'' then handle_read_messages E params w
                   else if step = JStr ''remove'' then handle_remove E params w
                   else (None, write_error (''Unknown step: '' @ py_str E step) w))
          in (case r of
                (None, w') \<Rightarrow> (None, w')
              | (Some e, w') \<Rightarrow> (None, write_error (step_failed E e) w')))"

text \<open>One round of \<open>run_loop\<close>: the body of its \<open>while True\<close>, without the sleep.\<close>

definition worker_poll :: "env \<Rightarrow> worker \<Rightarrow> worker" where
  "worker_poll E w =
     (case request_file (wfiles w) of
        None \<Rightarrow> w
      | Some request_text \<Rightarrow>
          (case json_loads E request_text of
             Inl e \<Rightarrow>
               if e = JSONDecodeError then
                 write_error (''Invalid request JSON: '' @ exn_str E e) (clear_request w)
               else
                 write_error (''Unexpected error: '' @ exn_str E e @ nl @ nl @ format_exc E e)
                   (clear_request w)
           | Inr request \<Rightarrow>
               (case process_request E request (clear_request w) of
                  (None, w') \<Rightarrow> w'
                | (Some e, w') \<Rightarrow>
                    write_error (''Unexpected error: '' @ exn_str E e @ nl @ nl @ format_exc E e)
                      (clear_request w'))))"

text \<open>Replaying file operations on the channel files: what a reader finds after each
  prefix of the worker's operations.\<close>

fun apply_op :: "step_files \<Rightarrow> file_op \<Rightarrow> step_files" where
  "apply_op f (WriteStatus s) = f\<lparr>status_file := Some s\<rparr>"
| "apply_op f (WriteResult t) = f\<lparr>result_file := Some t\<rparr>"
| "apply_op f ClearRequest = f\<lparr>request_file := None\<rparr>"
| "apply_op f (HandlerStart s) = f"

definition replay :: "file_op list \<Rightarrow> step_files \<Rightarrow> step_files" where
  "replay ops f = foldl apply_op f ops"

definition terminal :: "step_files \<Rightarrow> bool" where
  "terminal f = (status_file f = Some ''complete'' \<or> status_file f = Some ''error'')"


section \<open>Notions the properties are stated with\<close>

text \<open>A suspect whose \<open>avatar_path\<close> is a value of \<open>Path\<close>: the text of a path is what
  \<open>Path\<close> makes of it. The same for plans and for every suspect a state holds.\<close>

definition suspect_ok :: "env \<Rightarrow> Suspect \<Rightarrow> bool" where
  "suspect_ok E s = (mkPath E (avatar_path s) = avatar_path s)"

definition plan_ok :: "env \<Rightarrow> RemovalPlan \<Rightarrow> bool" where
  "plan_ok E p = list_all (suspect_ok E) (suspects p)"

definition opt_plan_ok :: "env \<Rightarrow> RemovalPlan option \<Rightarrow> bool" where
  "opt_plan_ok E p = (case p of None \<Rightarrow> True | Some q \<Rightarrow> plan_ok E q)"

definition state_paths_ok :: "env \<Rightarrow> PanelState \<Rightarrow> bool" where
  "state_paths_ok E st =
     (list_all (suspect_ok E) (current_group_suspects st) \<and>
      opt_plan_ok E (current_group_plan st) \<and>
      list_all (suspect_ok E) (all_suspects st) \<and>
      list_all (plan_ok E) (all_plans st) \<and>
      list_all (suspect_ok E) (legacy_suspects st) \<and>
      opt_plan_ok E (legacy_plan st))"

text \<open>A thread record as both entry points accept it: \<open>name\<close> and \<open>thread_id\<close> strings,
  \<open>unread\<close> a boolean, \<open>is_group\<close> a boolean or absent.\<close>

definition thread_record_ok :: "(string \<times> json) list \<Rightarrow> bool" where
  "thread_record_ok kvs =
     ((case map_of kvs ''name'' of Some (JStr n) \<Rightarrow> True | _ \<Rightarrow> False) \<and>
      (case map_of kvs ''thread_id'' of Some (JStr i) \<Rightarrow> True | _ \<Rightarrow> False) \<and>
      (case map_of kvs ''unread'' of Some (JBool u) \<Rightarrow> True | _ \<Rightarrow> False) \<and>
      (case map_of kvs ''is_group'' of None \<Rightarrow> True | Some (JBool g) \<Rightarrow> True | _ \<Rightarrow> False))"

text \<open>The events an operation added, and whether a missing-data box is among them.\<close>

definition new_events :: "panel \<Rightarrow> panel \<Rightarrow> ui_event list" where
  "new_events p p' = drop (length (ui p)) (ui p')"

fun is_missing_data :: "ui_event \<Rightarrow> bool" where
  "is_missing_data (ShowWarning title msg) = (title = ''Missing Data'')"
| "is_missing_data _ = False"

definition reports_missing_data :: "ui_event list \<Rightarrow> bool" where
  "reports_missing_data evs = list_ex is_missing_data evs"

text \<open>A pass as its advances see it: before each advance the per-group steps have left a
  list of suspects, and possibly a plan, in the per-group fields.\<close>

fun advances :: "(Suspect list \<times> RemovalPlan option) list \<Rightarrow> panel \<Rightarrow> panel" where
  "advances [] p = p"
| "advances ((ss, pl) # gs) p =
     advances gs
       (advance_to_next_group
          (p\<lparr>state := (state p)\<lparr>current_group_suspects := ss, current_group_plan := pl\<rparr>\<rparr>))"

text \<open>The cursor invariant.\<close>

definition cursor_ok :: "PanelState \<Rightarrow> bool" where
  "cursor_ok st =
     (0 \<le> current_thread_index st \<and> current_thread_index st \<le> int (length (unread_groups st)))"


section \<open>Example data\<close>

text \<open>
  A small instance of the library for the examples: \<open>Path\<close> turns the empty text into
  \<open>.\<close> and keeps any other text used here; the JSON codec knows the few documents the
  examples store, and rejects every other text.
\<close>

definition demo_loads :: "string \<Rightarrow> py_error + json" where
  "demo_loads t =
     (if t = ''[]'' then Inr (JArr [])
      else if t = ''5'' then Inr (JInt 5)
      else if t = ''{\"suspects\": []}'' then Inr (JObj [(''suspects'', JArr [])])
      else if t = ''{\"threads\": [{\"name\": \"g1\", \"thread_id\": \"g1\", \"unread\": true}]}''
        then Inr (JObj [(''threads'',
               JArr [JObj [(''name'', JStr ''g1''), (''thread_id'', JStr ''g1''),
                           (''unread'', JBool True)]])])
      else Inl JSONDecodeError)"

definition demo_dumps :: "json \<Rightarrow> string" where
  "demo_dumps j = (if j = JArr [] then ''[]'' else if j = JInt 5 then ''5'' else ''<json>'')"

definition demo_env :: env where
  "demo_env =
     \<lparr>json_loads = demo_loads, json_dumps = demo_dumps,
      mkPath = (\<lambda>s. if s = [] then ''.'' else s),
      str_other = (\<lambda>j. ''<value>''),
      exn_str = (\<lambda>e. ''<message>''),
      exn_name = (\<lambda>e. ''Exception''),
      format_exc = (\<lambda>e. ''<traceback>''),
      run_agent = (\<lambda>t. Inr (''{\"suspects\": []}'', [''captures/reader_g1_0.png'']))\<rparr>"

definition demo_g1 :: GroupThread where
  "demo_g1 = \<lparr>name = ''g1'', thread_id = ''g1'', unread = True, is_group = True\<rparr>"

definition demo_c1 :: GroupThread where
  "demo_c1 = \<lparr>name = ''c1'', thread_id = ''c1'', unread = True, is_group = False\<rparr>"

definition demo_g2 :: GroupThread where
  "demo_g2 = \<lparr>name = ''g2'', thread_id = ''g2'', unread = False, is_group = True\<rparr>"

definition demo_g3 :: GroupThread where
  "demo_g3 = \<lparr>name = ''g3'', thread_id = ''g3'', unread = True, is_group = True\<rparr>"

definition demo_s1 :: Suspect where
  "demo_s1 = \<lparr>sender_id = ''wxid_1'', sender_name = ''spam'', avatar_path = ''.'',
              evidence_text = ''offer'', s_thread_id = ''g1''\<rparr>"

definition demo_s2 :: Suspect where
  "demo_s2 = \<lparr>sender_id = ''wxid_2'', sender_name = ''ads'',
              avatar_path = ''captures/reader_g3_0.png'',
              evidence_text = ''contact me'', s_thread_id = ''g3''\<rparr>"

definition no_files :: step_files where
  "no_files = \<lparr>request_file = None, status_file = None, result_file = None\<rparr>"

text \<open>The panel right after its start without a snapshot, with the worker started.\<close>

definition demo_panel :: panel where
  "demo_panel =
     \<lparr>state = PanelState0, state_file = None, workflow_process = True,
      files = no_files, ui = []\<rparr>"

definition demo_worker :: worker where
  "demo_worker = \<lparr>wfiles = no_files, trace = []\<rparr>"

text \<open>A state in the middle of a pass, with one group done.\<close>

definition demo_state :: PanelState where
  "demo_state =
     \<lparr>threads = [demo_g1, demo_c1, demo_g2, demo_g3], unread_groups = [demo_g1, demo_g3],
      current_thread_index = 1,
      current_group_suspects = [demo_s2],
      current_group_plan = Some \<lparr>suspects = [demo_s2], confirmed = False, plan_note = None\<rparr>,
      all_suspects = [demo_s1],
      all_plans = [\<lparr>suspects = [demo_s1], confirmed = True, plan_note = Some ''done''\<rparr>],
      legacy_suspects = [demo_s1],
      legacy_plan = Some \<lparr>suspects = [demo_s1], confirmed = True,
                          plan_note = Some ''Processed 1 group(s)''\<rparr>,
      step_logs = [(''read_g1'', ''{\"suspects\": []}''), (''read_g1_screenshots'', ''[]'')]\<rparr>"

text \<open>What the operator can load by hand as read results: the group g1, with an empty
  read text and the number 5 where the list of screenshots belongs.\<close>

definition demo_read_input :: json where
  "demo_read_input =
     JObj [(''threads'',
            JArr [JObj [(''name'', JStr ''g1''), (''thread_id'', JStr ''g1''),
                        (''unread'', JBool True)]]),
           (''read_results'',
            JObj [(''g1'', JObj [(''text'', JStr ''''), (''screenshots'', JInt 5)])])]"

definition demo_loaded :: panel where
  "demo_loaded = load_read_results demo_env demo_read_input demo_panel"

text \<open>A panel at the group g1 whose stored read log is not JSON.\<close>

definition demo_unparsed :: panel where
  "demo_unparsed =
     demo_panel\<lparr>state := PanelState0\<lparr>unread_groups := [demo_g1],
                                       step_logs := [(''read_g1'', ''not json'')]\<rparr>\<rparr>"

text \<open>The worker after one request: \<open>started\<close> once \<open>running\<close> is written and the
  operations \<open>pre\<close> have followed, \<open>processed\<close> once the result and then the terminal
  status are written as well.\<close>

definition processed :: "file_op list \<Rightarrow> string \<Rightarrow> string \<Rightarrow> worker \<Rightarrow> worker" where
  "processed pre payload t w =
     w\<lparr>wfiles := (wfiles w)\<lparr>status_file := Some t, result_file := Some payload\<rparr>,
       trace := trace w @ WriteStatus ''running'' # pre @ [WriteResult payload, WriteStatus t]\<rparr>"

definition started :: "file_op list \<Rightarrow> worker \<Rightarrow> worker" where
  "started pre w =
     w\<lparr>wfiles := (wfiles w)\<lparr>status_file := Some ''running''\<rparr>,
       trace := trace w @ WriteStatus ''running'' # pre\<rparr>"

text \<open>A request for the read step, as the panel writes it.\<close>

definition demo_request :: "(string \<times> json) list" where
  "demo_request =
     [(''step'', JStr ''read_messages''),
      (''params'', JObj [(''thread_id'', JStr ''g1''), (''thread_name'', JStr ''g1'')])]"

text \<open>Channel files left behind with the status \<open>complete\<close> and a result that is not
  JSON.\<close>

definition demo_stale :: step_files where
  "demo_stale =
     \<lparr>request_file = None, status_file = Some ''complete'', result_file = Some ''not json''\<rparr>"

text \<open>A pass over the single group g1, from the start: the group is loaded by hand, an
  empty plan is loaded by hand, Remove advances. Then read results naming no thread are
  loaded by hand.\<close>

definition demo_g1_json :: json where
  "demo_g1_json =
     JObj [(''thread_id'', JStr ''g1''), (''name'', JStr ''g1''),
           (''unread'', JBool True), (''is_group'', JBool True)]"

definition demo_pass_done :: panel where
  "demo_pass_done =
     run_removal demo_env True None
       (load_plan demo_env (JObj [(''suspects'', JArr []), (''confirmed'', JBool False),
                                  (''note'', JStr '''')])
          (load_groups demo_env (JArr [demo_g1_json]) demo_panel))"

definition demo_reloaded :: panel where
  "demo_reloaded = load_read_results demo_env (JObj [(''threads'', JArr [])]) demo_pass_done"

text \<open>A panel with list objects: the list of the current group's suspects is the object
  at address 1 and holds one suspect; no plan yet.\<close>

definition demo_ref :: ref_panel where
  "demo_ref =
     \<lparr>heap = (\<lambda>a. None)(1 := Some [demo_s1]), cgs_at = 1, cgp = None,
      rest = demo_panel\<lparr>state := PanelState0\<lparr>unread_groups := [demo_g1]\<rparr>\<rparr>\<rparr>"

text \<open>A thread record without the key \<open>is_group\<close>, and the classification text whose
  only thread is that record.\<close>

definition demo_record :: "(string \<times> json) list" where
  "demo_record = [(''name'', JStr ''g1''), (''thread_id'', JStr ''g1''), (''unread'', JBool True)]"

definition demo_classify_text :: string where
  "demo_classify_text =
     ''{\"threads\": [{\"name\": \"g1\", \"thread_id\": \"g1\", \"unread\": true}]}''"

text \<open>
  What the operator and the polling thread can make the panel do, one operation at a
  time: the manual loads with the document supplied, the step buttons (with the worker's
  exit code where the step asks for it, and the operator's answer for Remove), and the
  result handlers with the result delivered.
\<close>

datatype action =
    LoadThreads json
  | LoadGroups json
  | LoadReadResults json
  | LoadSuspects json
  | LoadPlan json
  | Classify "int option"
  | ClassifyResult json
  | Filter
  | Read "int option"
  | ReadResult json
  | Extract
  | Plan
  | Remove bool "int option"
  | RemovalResult json

fun perform :: "env \<Rightarrow> action \<Rightarrow> panel \<Rightarrow> panel" where
  "perform E (LoadThreads j) p = load_threads E j p"
| "perform E (LoadGroups j) p = load_groups E j p"
| "perform E (LoadReadResults j) p = load_read_results E j p"
| "perform E (LoadSuspects j) p = load_suspects E j p"
| "perform E (LoadPlan j) p = load_plan E j p"
| "perform E (Classify exited) p = run_classify E exited p"
| "perform E (ClassifyResult j) p = on_classify_result E j p"
| "perform E Filter p = run_filter p"
| "perform E (Read exited) p = run_read_messages E exited p"
| "perform E (ReadResult j) p = on_read_result E j p"
| "perform E Extract p = run_extract E p"
| "perform E Plan p = run_build_plan p"
| "perform E (Remove confirm exited) p = run_removal E confirm exited p"
| "perform E (RemovalResult j) p = on_removal_result E j p"

fun is_load_read_results :: "action \<Rightarrow> bool" where
  "is_load_read_results (LoadReadResults j) = True"
| "is_load_read_results _ = False"

definition cursor_of :: "panel \<Rightarrow> int \<times> GroupThread list" where
  "cursor_of p = (current_thread_index (state p), unread_groups (state p))"

fun run_actions :: "env \<Rightarrow> action list \<Rightarrow> panel \<Rightarrow> panel" where
  "run_actions E [] p = p"
| "run_actions E (a # as) p = run_actions E as (perform E a p)"

definition accumulated_of :: "panel \<Rightarrow> Suspect list \<times> RemovalPlan list" where
  "accumulated_of p = (all_suspects (state p), all_plans (state p))"

text \<open>The operations of the pass over g1 that ends with the cursor at 1.\<close>

definition demo_actions :: "action list" where
  "demo_actions =
     [LoadGroups (JArr [demo_g1_json]),
      LoadPlan (JObj [(''suspects'', JArr []), (''confirmed'', JBool False),
                      (''note'', JStr '''')]),
      Remove True None]"


section \<open>Basic facts\<close>

lemma bindR_Inr [simp]: "bindR (Inr v) f = f v"
  by (simp add: bindR_def)

lemma bindR_Inl [simp]: "bindR (Inl e) f = Inl e"
  by (simp add: bindR_def)

lemma mapR_map_id:
  "list_all (\<lambda>x. f (g x) = Inr x) xs \<Longrightarrow> mapR f (map g xs) = Inr xs"
  by (induction xs) auto

lemma py_nth_in_range:
  "0 \<le> i \<Longrightarrow> i < int (length xs) \<Longrightarrow> py_nth xs i = Inr (xs ! nat i)"
  by (simp add: py_nth_def Let_def)

lemma log_proj [simp]:
  "state (log m p) = state p" "state_file (log m p) = state_file p"
  "workflow_process (log m p) = workflow_process p" "files (log m p) = files p"
  "ui (log m p) = ui p @ [Log m]"
  by (simp_all add: log_def)

lemma set_status_proj [simp]:
  "state (set_status m p) = state p" "state_file (set_status m p) = state_file p"
  "workflow_process (set_status m p) = workflow_process p" "files (set_status m p) = files p"
  "ui (set_status m p) = ui p @ [SetStatus m]"
  by (simp_all add: set_status_def)

lemma show_warning_proj [simp]:
  "state (show_warning t m p) = state p" "state_file (show_warning t m p) = state_file p"
  "workflow_process (show_warning t m p) = workflow_process p"
  "files (show_warning t m p) = files p"
  "ui (show_warning t m p) = ui p @ [ShowWarning t m]"
  by (simp_all add: show_warning_def)

lemma show_info_proj [simp]:
  "state (show_info t m p) = state p" "state_file (show_info t m p) = state_file p"
  "workflow_process (show_info t m p) = workflow_process p"
  "files (show_info t m p) = files p"
  "ui (show_info t m p) = ui p @ [ShowInfo t m]"
  by (simp_all add: show_info_def)

lemma show_error_proj [simp]:
  "state (show_error t m p) = state p" "state_file (show_error t m p) = state_file p"
  "workflow_process (show_error t m p) = workflow_process p"
  "files (show_error t m p) = files p"
  "ui (show_error t m p) = ui p @ [ShowError t m]"
  by (simp_all add: show_error_def)

lemma uncaught_proj [simp]:
  "state (uncaught e p) = state p" "state_file (uncaught e p) = state_file p"
  "workflow_process (uncaught e p) = workflow_process p" "files (uncaught e p) = files p"
  "ui (uncaught e p) = ui p @ [Uncaught e]"
  by (simp_all add: uncaught_def)

lemma save_panel_proj [simp]:
  "state (save_panel p) = state p"
  "state_file (save_panel p) = Some (serialize_state (state p))"
  "workflow_process (save_panel p) = workflow_process p" "files (save_panel p) = files p"
  "ui (save_panel p) = ui p"
  by (simp_all add: save_panel_def save_state_def)

lemma foldl_log_proj [simp]:
  "state (foldl (\<lambda>q x. log (f x) q) p xs) = state p"
  "state_file (foldl (\<lambda>q x. log (f x) q) p xs) = state_file p"
  "workflow_process (foldl (\<lambda>q x. log (f x) q) p xs) = workflow_process p"
  "files (foldl (\<lambda>q x. log (f x) q) p xs) = files p"
  by (induction xs arbitrary: p) simp_all

lemma foldl_log_ui [simp]:
  "ui (foldl (\<lambda>q x. log (f x) q) p xs) = ui p @ map (\<lambda>x. Log (f x)) xs"
  by (induction xs arbitrary: p) simp_all


section \<open>Snapshot round trip\<close>

lemma roundtrip_suspect:
  "suspect_ok E s \<Longrightarrow> deserialize_suspect E (serialize_suspect s) = Inr s"
  by (simp add: suspect_ok_def deserialize_suspect_def serialize_suspect_def)

lemma roundtrip_suspects:
  "list_all (suspect_ok E) ss \<Longrightarrow>
   mapR (deserialize_suspect E) (map serialize_suspect ss) = Inr ss"
  by (rule mapR_map_id) (simp add: list_all_iff roundtrip_suspect)

lemma roundtrip_plan:
  "plan_ok E p \<Longrightarrow> deserialize_plan E (serialize_plan p) = Inr p"
  by (cases "plan_note p")
     (simp_all add: plan_ok_def deserialize_plan_def serialize_plan_def opt_str_json_def
        roundtrip_suspects)

lemma roundtrip_plans:
  "list_all (plan_ok E) ps \<Longrightarrow> mapR (deserialize_plan E) (map serialize_plan ps) = Inr ps"
  by (rule mapR_map_id) (simp add: list_all_iff roundtrip_plan)

lemma roundtrip_opt_plan:
  "opt_plan_ok E p \<Longrightarrow> deserialize_opt_plan E (opt_plan_json p) = Inr p"
  by (cases p)
     (simp_all add: opt_plan_ok_def deserialize_opt_plan_def opt_plan_json_def roundtrip_plan,
      simp add: serialize_plan_def)

lemma roundtrip_thread: "deserialize_thread (asdict_thread t) = Inr t"
  by (simp add: deserialize_thread_def asdict_thread_def)

lemma roundtrip_threads: "mapR deserialize_thread (map asdict_thread ts) = Inr ts"
  by (rule mapR_map_id) (simp add: list_all_iff roundtrip_thread)

lemma roundtrip_logs:
  "deserialize_logs (JObj (map (\<lambda>kv. (fst kv, JStr (snd kv))) logs)) = Inr logs"
  unfolding deserialize_logs_def json.case
  by (rule mapR_map_id) (simp add: list_all_iff)

text \<open>
  C2. Deserializing the serialized form of a state gives the state back, field for
  field: \<open>_deserialize_state\<close> applied to \<open>_serialize_state\<close> is the identity. The
  state is any value of the data model: every \<open>avatar_path\<close> in it is a value of
  \<open>Path\<close>.
\<close>

theorem C2_roundtrip:
  assumes "state_paths_ok E st"
  shows "deserialize_state E (serialize_state st) = Inr st"
  using assms
  by (simp add: state_paths_ok_def deserialize_state_def serialize_state_def
      roundtrip_threads roundtrip_suspects roundtrip_plans roundtrip_opt_plan roundtrip_logs)

theorem C2_roundtrip_witness:
  "state_paths_ok demo_env demo_state
   \<and> all_plans demo_state \<noteq> [] \<and> step_logs demo_state \<noteq> []
   \<and> deserialize_state demo_env (serialize_state demo_state) = Inr demo_state"
  using C2_roundtrip [of demo_env demo_state]
  by (simp add: state_paths_ok_def opt_plan_ok_def plan_ok_def suspect_ok_def
      demo_state_def demo_env_def demo_s1_def demo_s2_def)


section \<open>Filter\<close>

text \<open>
  C8. Filter never touches the channel files. With threads present it sets
  \<open>unread_groups\<close> to the threads that are groups and unread, in their order, and the
  cursor to 0; without threads it changes nothing and shows the missing-data box. On the
  three threads g1 (group, unread), c1 (individual, unread), g2 (group, read) the result
  is \<open>[g1]\<close>.
\<close>

theorem C8_filter:
  "files (run_filter p) = files p \<and>
   (threads (state p) \<noteq> [] \<longrightarrow>
      unread_groups (state (run_filter p))
        = filter (\<lambda>t. is_group t \<and> unread t) (threads (state p)) \<and>
      current_thread_index (state (run_filter p)) = 0 \<and>
      threads (state (run_filter p)) = threads (state p)) \<and>
   (threads (state p) = [] \<longrightarrow>
      state (run_filter p) = state p \<and>
      ui (run_filter p) = ui p @ [ShowWarning ''Missing Data''
            ''Run 'Classify Threads' first or load threads manually.''])"
  by (simp add: run_filter_def filter_unread_groups_def Let_def)

theorem C8_filter_witness:
  "threads (state (demo_panel\<lparr>state := PanelState0\<lparr>threads := [demo_g1, demo_c1, demo_g2]\<rparr>\<rparr>)) \<noteq> []
   \<and> unread_groups (state (run_filter
        (demo_panel\<lparr>state := PanelState0\<lparr>threads := [demo_g1, demo_c1, demo_g2]\<rparr>\<rparr>))) = [demo_g1]
   \<and> current_thread_index (state (run_filter
        (demo_panel\<lparr>state := PanelState0\<lparr>threads := [demo_g1, demo_c1, demo_g2]\<rparr>\<rparr>))) = 0
   \<and> files (run_filter
        (demo_panel\<lparr>state := PanelState0\<lparr>threads := [demo_g1, demo_c1, demo_g2]\<rparr>\<rparr>)) = no_files"
  using C8_filter [of "demo_panel\<lparr>state := PanelState0\<lparr>threads := [demo_g1, demo_c1, demo_g2]\<rparr>\<rparr>"]
  by (simp add: demo_panel_def PanelState0_def demo_g1_def demo_c1_def demo_g2_def)


section \<open>Advance\<close>

lemma foldl_append_suspects:
  "foldl (\<lambda>acc q. acc @ suspects q) a ps = a @ concat (map suspects ps)"
  by (induction ps arbitrary: a) simp_all

lemma merged_plan_concat:
  "merged_plan ps =
     \<lparr>suspects = concat (map suspects ps), confirmed = True,
      plan_note = Some (''Processed '' @ str_nat (length ps) @ '' group(s)'')\<rparr>"
  by (simp add: merged_plan_def foldl_append_suspects)

lemma advance_state_fields:
  "all_suspects (advance_state st) = all_suspects st @ current_group_suspects st"
  "all_plans (advance_state st) =
     all_plans st @ (case current_group_plan st of None \<Rightarrow> [] | Some pl \<Rightarrow> [pl])"
  "legacy_suspects (advance_state st) = all_suspects st @ current_group_suspects st"
  "current_thread_index (advance_state st) = current_thread_index st + 1"
  "current_group_suspects (advance_state st) = []"
  "current_group_plan (advance_state st) = None"
  "threads (advance_state st) = threads st"
  "unread_groups (advance_state st) = unread_groups st"
  "step_logs (advance_state st) = step_logs st"
  by (simp_all add: advance_state_def Let_def split: option.splits)

lemma advance_state_legacy_plan:
  "legacy_plan (advance_state st) =
     (if all_plans (advance_state st) \<noteq> [] then Some (merged_plan (all_plans (advance_state st)))
      else legacy_plan st)"
  by (simp add: advance_state_def Let_def split: option.splits)

lemma advance_panel_proj:
  "state (advance_to_next_group p) = advance_state (state p)"
  "state_file (advance_to_next_group p) = Some (serialize_state (advance_state (state p)))"
  "files (advance_to_next_group p) = files p"
  "workflow_process (advance_to_next_group p) = workflow_process p"
  by (simp_all add: advance_to_next_group_def Let_def split: sum.splits)

lemma advances_all_suspects:
  "all_suspects (state (advances gs p)) = all_suspects (state p) @ concat (map fst gs)"
  by (induction gs p rule: advances.induct) (simp_all add: advance_panel_proj advance_state_fields)

text \<open>
  C4, as amended. Advance appends \<open>current_group_suspects\<close> to \<open>all_suspects\<close> and the
  current plan, when there is one, to \<open>all_plans\<close>. If \<open>all_plans\<close> is then not empty,
  the legacy plan becomes the concatenation of the suspects of all accumulated plans, with
  \<open>confirmed = True\<close> and the note \<open>Processed N group(s)\<close>, N the number of accumulated
  plans; if it is empty, the legacy plan stays as it was. Advance clears both per-group
  fields, adds 1 to the cursor and writes the snapshot. After any number of advances
  \<open>all_suspects\<close> is what it was, followed by the per-advance suspect lists in order, so
  its length grows by the sum of their lengths and what was there stays in place.
\<close>

theorem C4_advance:
  "all_suspects (state (advance_to_next_group p))
     = all_suspects (state p) @ current_group_suspects (state p)
   \<and> all_plans (state (advance_to_next_group p))
     = all_plans (state p) @ (case current_group_plan (state p) of None \<Rightarrow> [] | Some pl \<Rightarrow> [pl])
   \<and> legacy_plan (state (advance_to_next_group p))
     = (if all_plans (state (advance_to_next_group p)) = [] then legacy_plan (state p)
        else Some \<lparr>suspects = concat (map suspects (all_plans (state (advance_to_next_group p)))),
                   confirmed = True,
                   plan_note = Some (''Processed ''
                     @ str_nat (length (all_plans (state (advance_to_next_group p))))
                     @ '' group(s)'')\<rparr>)
   \<and> current_group_suspects (state (advance_to_next_group p)) = []
   \<and> current_group_plan (state (advance_to_next_group p)) = None
   \<and> current_thread_index (state (advance_to_next_group p))
     = current_thread_index (state p) + 1
   \<and> state_file (advance_to_next_group p)
     = Some (serialize_state (state (advance_to_next_group p)))
   \<and> all_suspects (state (advances gs p)) = all_suspects (state p) @ concat (map fst gs)
   \<and> length (all_suspects (state (advances gs p)))
     = length (all_suspects (state p)) + sum_list (map (\<lambda>g. length (fst g)) gs)
   \<and> take (length (all_suspects (state p))) (all_suspects (state (advances gs p)))
     = all_suspects (state p)"
proof -
  have len: "length (concat (map fst gs)) = sum_list (map (\<lambda>g. length (fst g)) gs)"
    by (simp add: length_concat comp_def)
  show ?thesis
    by (simp add: advance_panel_proj advance_state_fields advance_state_legacy_plan
        merged_plan_concat advances_all_suspects len)
qed

theorem C4_advance_witness:
  "all_suspects (state (advance_to_next_group (demo_panel\<lparr>state := demo_state\<rparr>)))
     = [demo_s1, demo_s2]
   \<and> legacy_plan (state (advance_to_next_group (demo_panel\<lparr>state := demo_state\<rparr>)))
     = Some \<lparr>suspects = [demo_s1, demo_s2], confirmed = True,
             plan_note = Some ''Processed 2 group(s)''\<rparr>
   \<and> current_thread_index (state (advance_to_next_group (demo_panel\<lparr>state := demo_state\<rparr>))) = 2
   \<and> length (all_suspects (state (advances [([demo_s2], None), ([], None)]
        (demo_panel\<lparr>state := demo_state\<rparr>)))) = 2"
  using C4_advance [of "demo_panel\<lparr>state := demo_state\<rparr>" "[([demo_s2], None), ([], None)]"]
  by (simp add: demo_state_def digit_char_def)

text \<open>The claim as stated fails where no plan has been accumulated: the legacy plan is
  not rebuilt, it stays absent.\<close>

theorem C4_counterexample:
  "legacy_plan (state (advance_to_next_group
       (demo_panel\<lparr>state := PanelState0\<lparr>unread_groups := [demo_g1],
                                         current_group_suspects := [demo_s1]\<rparr>\<rparr>))) = None
   \<and> all_suspects (state (advance_to_next_group
       (demo_panel\<lparr>state := PanelState0\<lparr>unread_groups := [demo_g1],
                                         current_group_suspects := [demo_s1]\<rparr>\<rparr>))) = [demo_s1]"
  by (simp add: advance_panel_proj advance_state_fields advance_state_legacy_plan
      demo_panel_def PanelState0_def)


section \<open>Remove on an empty plan\<close>

text \<open>
  C7, as amended. When the panel holds a worker handle, the cursor is within bounds and
  the current plan exists with no suspects, Remove leaves the channel files as they are
  and advances: the cursor grows by 1 and what is appended to \<open>all_suspects\<close> is
  \<open>current_group_suspects\<close>, which is empty only when that list is.
\<close>

theorem C7_remove_empty_plan:
  assumes "workflow_process p"
    and "0 \<le> current_thread_index (state p)"
    and "current_thread_index (state p) < int (length (unread_groups (state p)))"
    and "current_group_plan (state p) = Some pl"
    and "suspects pl = []"
  shows "files (run_removal E confirm exited p) = files p
       \<and> state (run_removal E confirm exited p) = advance_state (state p)
       \<and> current_thread_index (state (run_removal E confirm exited p))
           = current_thread_index (state p) + 1
       \<and> all_suspects (state (run_removal E confirm exited p))
           = all_suspects (state p) @ current_group_suspects (state p)"
  using assms
  by (simp add: run_removal_def Let_def py_nth_in_range advance_panel_proj advance_state_fields)

theorem C7_remove_empty_plan_witness:
  "workflow_process (demo_panel\<lparr>state := PanelState0\<lparr>unread_groups := [demo_g1],
       current_group_plan := Some \<lparr>suspects = [], confirmed = False, plan_note = Some ''''\<rparr>\<rparr>\<rparr>)
   \<and> files (run_removal demo_env True None
        (demo_panel\<lparr>state := PanelState0\<lparr>unread_groups := [demo_g1],
           current_group_plan := Some \<lparr>suspects = [], confirmed = False, plan_note = Some ''''\<rparr>\<rparr>\<rparr>))
       = no_files
   \<and> current_thread_index (state (run_removal demo_env True None
        (demo_panel\<lparr>state := PanelState0\<lparr>unread_groups := [demo_g1],
           current_group_plan := Some \<lparr>suspects = [], confirmed = False, plan_note = Some ''''\<rparr>\<rparr>\<rparr>)))
       = 1
   \<and> all_suspects (state (run_removal demo_env True None
        (demo_panel\<lparr>state := PanelState0\<lparr>unread_groups := [demo_g1],
           current_group_plan := Some \<lparr>suspects = [], confirmed = False, plan_note = Some ''''\<rparr>\<rparr>\<rparr>)))
       = []"
  using C7_remove_empty_plan [of
      "demo_panel\<lparr>state := PanelState0\<lparr>unread_groups := [demo_g1],
         current_group_plan := Some \<lparr>suspects = [], confirmed = False, plan_note = Some ''''\<rparr>\<rparr>\<rparr>"
      "\<lparr>suspects = [], confirmed = False, plan_note = Some ''''\<rparr>" demo_env True None]
  by (simp add: demo_panel_def PanelState0_def advance_state_fields)

text \<open>The claim as stated fails twice: with suspects extracted and an empty plan loaded
  by hand, the advance appends the extracted suspects; and without a worker handle Remove
  does not advance.\<close>

theorem C7_counterexample:
  "all_suspects (state (run_removal demo_env True None
        (demo_panel\<lparr>state := PanelState0\<lparr>unread_groups := [demo_g1],
           current_group_suspects := [demo_s1],
           current_group_plan := Some \<lparr>suspects = [], confirmed = False, plan_note = Some ''''\<rparr>\<rparr>\<rparr>)))
     = [demo_s1]
   \<and> current_thread_index (state (run_removal demo_env True None
        (demo_panel\<lparr>workflow_process := False,
           state := PanelState0\<lparr>unread_groups := [demo_g1],
             current_group_plan := Some \<lparr>suspects = [], confirmed = False, plan_note = Some ''''\<rparr>\<rparr>\<rparr>)))
     = 0"
  by (simp add: run_removal_def Let_def py_nth_def advance_panel_proj advance_state_fields
      demo_panel_def PanelState0_def)


section \<open>Extract\<close>

lemma extract_suspects_loads_fails:
  "json_loads E t = Inl e \<Longrightarrow> extract_suspects E th t shots = Inl e"
  by (simp add: extract_suspects_def)

lemma no_missing_data_in_logs [simp]:
  "\<not> list_ex is_missing_data (map (\<lambda>x. Log (f x)) xs)"
  by (induction xs) simp_all

text \<open>
  C10, as amended. For a cursor within bounds, Extract shows the missing-data box
  exactly when the read log stored for the current thread, \<open>{}\<close> if there is none, is
  the text \<open>{}\<close>, and then changes no state. Any other text, when the stored screenshot
  log decodes to a list of path texts, goes to \<open>extract_suspects\<close>, whose first step is
  the JSON parser on that text: a failure there, or later in the extraction, is logged as
  \<open>Parse error\<close> and leaves the state and the snapshot as they were; a success stores
  the suspects.
\<close>

theorem C10_extract:
  assumes "0 \<le> current_thread_index (state p)"
    and "current_thread_index (state p) < int (length (unread_groups (state p)))"
    and "thread = unread_groups (state p) ! nat (current_thread_index (state p))"
    and "text_output = dict_get (step_logs (state p)) (''read_'' @ thread_id thread) ''{}''"
    and "screenshots_json =
           dict_get (step_logs (state p)) (''read_'' @ thread_id thread @ ''_screenshots'') ''[]''"
  shows "(reports_missing_data (new_events p (run_extract E p)) \<longleftrightarrow> text_output = ''{}'')
       \<and> (text_output = ''{}'' \<longrightarrow>
            state (run_extract E p) = state p \<and> state_file (run_extract E p) = state_file p)
       \<and> (text_output \<noteq> ''{}'' \<and> screenshot_paths_of E screenshots_json = Inr shots \<longrightarrow>
            (\<forall>e. json_loads E text_output = Inl e \<longrightarrow>
                 extract_suspects E thread text_output shots = Inl e) \<and>
            (\<forall>e. extract_suspects E thread text_output shots = Inl e \<longrightarrow>
                 state (run_extract E p) = state p \<and>
                 state_file (run_extract E p) = state_file p \<and>
                 Log (''Parse error: '' @ exn_str E e) \<in> set (new_events p (run_extract E p))) \<and>
            (\<forall>ss. extract_suspects E thread text_output shots = Inr ss \<longrightarrow>
                 state (run_extract E p) = (state p)\<lparr>current_group_suspects := ss\<rparr>))"
proof -
  from assms(1,2) have ne: "unread_groups (state p) \<noteq> []" by auto
  from assms(1,2) have nth: "py_nth (unread_groups (state p)) (current_thread_index (state p))
      = Inr thread"
    by (simp add: py_nth_in_range assms(3))
  have ge: "\<not> int (length (unread_groups (state p))) \<le> current_thread_index (state p)"
    using assms(2) by simp
  show ?thesis
    using ne nth ge assms(4,5)
    by (auto simp add: run_extract_def Let_def new_events_def reports_missing_data_def
        extract_suspects_loads_fails split: sum.splits)
qed

lemma run_extract_at:
  assumes "0 \<le> current_thread_index (state p)"
    and "current_thread_index (state p) < int (length (unread_groups (state p)))"
  shows "run_extract E p =
     (let thread = unread_groups (state p) ! nat (current_thread_index (state p));
          q = log (group_tag (current_thread_index (state p)) (unread_groups (state p))
                     @ ''Extracting suspects from: '' @ name thread)
                (set_status (''Running: Extract Suspects ('' @ name thread @ '')'') p);
          text_output = dict_get (step_logs (state p)) (''read_'' @ thread_id thread) ''{}''
      in if text_output = ''{}'' then
           show_warning ''Missing Data''
             (''No read results for '' @ name thread @ ''. Run 'Read Messages' first.'') q
         else
           (case screenshot_paths_of E
                   (dict_get (step_logs (state p))
                      (''read_'' @ thread_id thread @ ''_screenshots'') ''[]'') of
              Inl e \<Rightarrow> uncaught e q
            | Inr screenshot_paths \<Rightarrow>
                set_status ''Ready''
                  (case extract_suspects E thread text_output screenshot_paths of
                     Inl e \<Rightarrow> log (''Parse error: '' @ exn_str E e) q
                   | Inr ss \<Rightarrow>
                       foldl (\<lambda>r s. log (''  - '' @ sender_name s @ '': ''
                                              @ take 50 (evidence_text s) @ ''...'') r)
                         (log (''Found '' @ str_nat (length ss) @ '' suspect(s) in ''
                                 @ name thread @ '':'')
                            (save_panel (q\<lparr>state := (state q)\<lparr>current_group_suspects := ss\<rparr>\<rparr>)))
                         ss)))"
proof -
  from assms have ne: "unread_groups (state p) \<noteq> []" by auto
  from assms have nth: "py_nth (unread_groups (state p)) (current_thread_index (state p))
      = Inr (unread_groups (state p) ! nat (current_thread_index (state p)))"
    by (simp add: py_nth_in_range)
  have ge: "\<not> int (length (unread_groups (state p))) \<le> current_thread_index (state p)"
    using assms(2) by simp
  show ?thesis
    unfolding run_extract_def Let_def using ne nth ge by (simp split: sum.splits)
qed

lemma demo_loaded_state:
  "state demo_loaded =
     PanelState0\<lparr>unread_groups := [demo_g1],
                  step_logs := [(''read_g1'', ''''), (''read_g1_screenshots'', ''5'')]\<rparr>"
  by (simp add: demo_loaded_def demo_read_input_def load_read_results_def demo_panel_def
      deserialize_thread_def demo_env_def demo_dumps_def PanelState0_def demo_g1_def Let_def)

lemma demo_loaded_text: "dict_get (step_logs (state demo_loaded)) ''read_g1'' ''{}'' = ''''"
  by (simp add: demo_loaded_state PanelState0_def dict_get_def)

lemma demo_loads_empty: "json_loads demo_env '''' = Inl JSONDecodeError"
  by (simp add: demo_env_def demo_loads_def)

lemma demo_group_tag: "group_tag 0 [demo_g1] = ''[Group 1/1] ''"
  by (simp add: group_tag_def str_int_def digit_char_def)

lemma demo_screenshots_5: "screenshot_paths_of demo_env ''5'' = Inl TypeError"
  by (simp add: screenshot_paths_of_def demo_env_def demo_loads_def)

lemma demo_loaded_extract:
  "run_extract demo_env demo_loaded =
     uncaught TypeError
       (log ''[Group 1/1] Extracting suspects from: g1''
          (set_status ''Running: Extract Suspects (g1)'' demo_loaded))"
proof -
  have a: "0 \<le> current_thread_index (state demo_loaded)"
    and b: "current_thread_index (state demo_loaded)
              < int (length (unread_groups (state demo_loaded)))"
    by (simp_all add: demo_loaded_state PanelState0_def)
  show ?thesis
    unfolding run_extract_at [OF a b] Let_def
    by (simp add: demo_loaded_state PanelState0_def demo_g1_def dict_get_def demo_group_tag [unfolded demo_g1_def] demo_screenshots_5)
qed

theorem C10_extract_witness:
  "0 \<le> current_thread_index (state demo_unparsed)
   \<and> current_thread_index (state demo_unparsed) < int (length (unread_groups (state demo_unparsed)))
   \<and> dict_get (step_logs (state demo_unparsed)) ''read_g1'' ''{}'' = ''not json''
   \<and> screenshot_paths_of demo_env ''[]'' = Inr []
   \<and> json_loads demo_env ''not json'' = Inl JSONDecodeError
   \<and> \<not> reports_missing_data (new_events demo_unparsed (run_extract demo_env demo_unparsed))
   \<and> state (run_extract demo_env demo_unparsed) = state demo_unparsed
   \<and> Log ''Parse error: <message>''
        \<in> set (new_events demo_unparsed (run_extract demo_env demo_unparsed))"
proof -
  have st: "state demo_unparsed =
      PanelState0\<lparr>unread_groups := [demo_g1], step_logs := [(''read_g1'', ''not json'')]\<rparr>"
    by (simp add: demo_unparsed_def demo_panel_def)
  have a: "0 \<le> current_thread_index (state demo_unparsed)"
    and b: "current_thread_index (state demo_unparsed)
              < int (length (unread_groups (state demo_unparsed)))"
    and th: "demo_g1 = unread_groups (state demo_unparsed)
                         ! nat (current_thread_index (state demo_unparsed))"
    by (simp_all add: st PanelState0_def)
  have c: "dict_get (step_logs (state demo_unparsed)) (''read_'' @ thread_id demo_g1) ''{}''
             = ''not json''"
    and sj: "dict_get (step_logs (state demo_unparsed))
               (''read_'' @ thread_id demo_g1 @ ''_screenshots'') ''[]'' = ''[]''"
    by (simp_all add: st PanelState0_def dict_get_def demo_g1_def)
  have d: "screenshot_paths_of demo_env ''[]'' = Inr []"
    by (simp add: screenshot_paths_of_def demo_env_def demo_loads_def)
  have e: "json_loads demo_env ''not json'' = Inl JSONDecodeError"
    by (simp add: demo_env_def demo_loads_def)
  have m: "exn_str demo_env JSONDecodeError = ''<message>''"
    by (simp add: demo_env_def)
  have k: "''read_'' @ thread_id demo_g1 = ''read_g1''"
    by (simp add: demo_g1_def)
  from C10_extract [OF a b th refl refl, of demo_env "[]"]
  show ?thesis
    unfolding c sj using a b c d e m k by auto
qed

text \<open>The claim as stated fails where the stored screenshot log does not decode to a list
  of path texts: that decoding is outside the \<open>try\<close>, its exception leaves the callback,
  and the read text, here the empty string, never reaches the parser and nothing is
  logged. The operator can bring the panel there with a manual load of read results.\<close>

theorem C10_counterexample:
  "dict_get (step_logs (state demo_loaded)) ''read_g1'' ''{}'' = ''''
   \<and> json_loads demo_env '''' = Inl JSONDecodeError
   \<and> new_events demo_loaded (run_extract demo_env demo_loaded)
       = [SetStatus ''Running: Extract Suspects (g1)'',
          Log ''[Group 1/1] Extracting suspects from: g1'',
          Uncaught TypeError]"
  by (simp add: demo_loaded_text demo_loads_empty demo_loaded_extract new_events_def)

section \<open>The worker's write order\<close>

lemma write_status_running: "write_status ''running'' w = started [] w"
  by (simp add: write_status_def started_def)

lemma write_error_started:
  "write_error msg (started pre w) = processed pre msg ''error'' w"
  by (simp add: write_error_def write_status_def write_text_result_def started_def processed_def)

lemma finish_step_started:
  "finish_step E t (started pre w) =
     (case run_agent E t of
        Inl e \<Rightarrow> (Some e, started pre w)
      | Inr (text_output, screenshots) \<Rightarrow>
          (None, processed pre (json_dumps E (step_result text_output screenshots)) ''complete'' w))"
  by (simp add: finish_step_def write_status_def write_result_def write_text_result_def
      started_def processed_def split: sum.splits prod.splits)

lemma start_handler:
  "(started [] w)\<lparr>trace := trace (started [] w) @ [HandlerStart s]\<rparr> = started [HandlerStart s] w"
  by (simp add: started_def)

lemma finish_step_outcome:
  "(\<exists>payload. finish_step E t (started pre w) = (None, processed pre payload ''complete'' w))
   \<or> (\<exists>e. finish_step E t (started pre w) = (Some e, started pre w))"
  by (cases "run_agent E t") (auto simp add: finish_step_started)

lemma handle_classify_outcome:
  "(\<exists>payload. handle_classify E params (started [] w)
       = (None, processed [HandlerStart ''classify''] payload ''complete'' w))
   \<or> (\<exists>e. handle_classify E params (started [] w)
       = (Some e, started [HandlerStart ''classify''] w))"
  unfolding handle_classify_def start_handler by (rule finish_step_outcome)

lemma handle_read_messages_outcome:
  "(\<exists>payload. handle_read_messages E params (started [] w)
       = (None, processed [HandlerStart ''read_messages''] payload ''complete'' w))
   \<or> (\<exists>e. handle_read_messages E params (started [] w)
       = (Some e, started [HandlerStart ''read_messages''] w))"
proof (cases "bindR (py_get params ''thread_id'' (JStr '''')) (\<lambda>tid.
           bindR (py_get params ''thread_name'' (JStr '''')) (\<lambda>tname.
           Inr (ReadTask (py_str E tid) (py_str E tname))))")
  case (Inl e)
  then show ?thesis by (simp add: handle_read_messages_def Let_def start_handler)
next
  case (Inr t)
  then show ?thesis
    using finish_step_outcome [of E t "[HandlerStart ''read_messages'']" w]
    by (simp add: handle_read_messages_def Let_def start_handler)
qed

lemma handle_remove_outcome:
  "(\<exists>payload. handle_remove E params (started [] w)
       = (None, processed [HandlerStart ''remove''] payload ''complete'' w))
   \<or> (\<exists>e. handle_remove E params (started [] w)
       = (Some e, started [HandlerStart ''remove''] w))"
proof (cases "bindR (py_get params ''suspects'' (JArr [])) (\<lambda>suspects_data.
           bindR (py_len suspects_data) (\<lambda>n.
           bindR (py_iter suspects_data) (\<lambda>items.
           bindR (mapR (remove_item E) items) (\<lambda>ss. Inr (RemoveTask ss)))))")
  case (Inl e)
  then show ?thesis by (simp add: handle_remove_def Let_def start_handler)
next
  case (Inr t)
  then show ?thesis
    using finish_step_outcome [of E t "[HandlerStart ''remove'']" w]
    by (simp add: handle_remove_def Let_def start_handler)
qed

lemma after_handler:
  assumes "(\<exists>payload. r = (None, processed [HandlerStart s] payload ''complete'' w))
         \<or> (\<exists>e. r = (Some e, started [HandlerStart s] w))"
  shows "\<exists>payload t.
           (case r of (None, w') \<Rightarrow> (None, w')
                    | (Some e, w') \<Rightarrow> (None, write_error (step_failed E e) w'))
             = (None, processed [HandlerStart s] payload t w)
           \<and> (t = ''complete'' \<or> t = ''error'')"
proof -
  from assms show ?thesis
  proof (elim disjE exE)
    fix payload
    assume "r = (None, processed [HandlerStart s] payload ''complete'' w)"
    then show ?thesis by simp blast
  next
    fix e
    assume "r = (Some e, started [HandlerStart s] w)"
    then show ?thesis by (simp add: write_error_started) blast
  qed
qed

lemma process_request_shape:
  "\<exists>pre payload t.
     process_request E (JObj kvs) w = (None, processed pre payload t w)
     \<and> (t = ''complete'' \<or> t = ''error'')
     \<and> (pre = [] \<or> (\<exists>s. pre = [HandlerStart s]))"
proof -
  define step where "step = (case map_of kvs ''step'' of None \<Rightarrow> JStr '''' | Some v \<Rightarrow> v)"
  define params where "params = (case map_of kvs ''params'' of None \<Rightarrow> JObj [] | Some v \<Rightarrow> v)"
  have pr: "process_request E (JObj kvs) w =
      (case (if step = JStr ''classify'' then handle_classify E params (started [] w)
             else if step = JStr ''read_messages'' then handle_read_messages E params (started [] w)
             else if step = JStr ''remove'' then handle_remove E params (started [] w)
             else (None, write_error (''Unknown step: '' @ py_str E step) (started [] w))) of
         (None, w') \<Rightarrow> (None, w')
       | (Some e, w') \<Rightarrow> (None, write_error (step_failed E e) w'))"
    by (simp add: process_request_def Let_def step_def params_def write_status_running)
  consider (c) "step = JStr ''classify''" | (r) "step = JStr ''read_messages''"
    | (m) "step = JStr ''remove''"
    | (u) "step \<noteq> JStr ''classify''" "step \<noteq> JStr ''read_messages''" "step \<noteq> JStr ''remove''"
    by blast
  then show ?thesis
  proof cases
    case c
    from after_handler [OF handle_classify_outcome [of E params w], of E]
    show ?thesis unfolding pr using c by simp blast
  next
    case r
    from after_handler [OF handle_read_messages_outcome [of E params w], of E]
    show ?thesis unfolding pr using r by simp blast
  next
    case m
    from after_handler [OF handle_remove_outcome [of E params w], of E]
    show ?thesis unfolding pr using m by simp blast
  next
    case u
    then show ?thesis unfolding pr by (auto simp add: write_error_started)
  qed
qed

lemma processed_files:
  "wfiles (processed pre payload t w) =
     replay (WriteStatus ''running'' # pre @ [WriteResult payload, WriteStatus t]) (wfiles w)"
  if "pre = [] \<or> (\<exists>s. pre = [HandlerStart s])"
  using that by (auto simp add: processed_def replay_def)

lemma replay_prefix_commit:
  assumes "pre = [] \<or> (\<exists>s. pre = [HandlerStart s])"
    and "0 < k"
    and "terminal (replay (take k (WriteStatus ''running'' # pre @ [WriteResult payload, WriteStatus t])) f)"
  shows "result_file (replay (take k (WriteStatus ''running'' # pre @ [WriteResult payload, WriteStatus t])) f)
           = Some payload"
proof -
  from assms(2) obtain k1 where k: "k = Suc k1" by (cases k) auto
  from assms(1) show ?thesis
  proof (elim disjE exE)
    assume p: "pre = []"
    show ?thesis
    proof (cases k1)
      case 0
      with assms(3) k p show ?thesis by (simp add: replay_def terminal_def)
    next
      case (Suc k2)
      with assms(3) k p show ?thesis
        by (cases k2) (simp_all add: replay_def terminal_def)
    qed
  next
    fix s assume p: "pre = [HandlerStart s]"
    show ?thesis
    proof (cases k1)
      case 0
      with assms(3) k p show ?thesis by (simp add: replay_def terminal_def)
    next
      case (Suc k2)
      note k2 = this
      show ?thesis
      proof (cases k2)
        case 0
        with assms(3) k k2 p show ?thesis by (simp add: replay_def terminal_def)
      next
        case (Suc k3)
        with assms(3) k k2 p show ?thesis
          by (cases k3) (simp_all add: replay_def terminal_def)
      qed
    qed
  qed
qed

text \<open>
  C1. For every request that is a JSON object, \<open>process_request\<close> returns, and its file
  operations are, in this order: the status \<open>running\<close>; the start of the step handler, if
  the step has one; the result payload; the terminal status, \<open>complete\<close> or \<open>error\<close>.
  The files it leaves hold that payload and that status. A reader that looks at the files
  after any non-empty prefix of these operations, whatever the files held before, and
  finds a terminal status, finds that payload in the result file.
\<close>

theorem C1_status_commits_result:
  "\<exists>pre payload t.
     fst (process_request E (JObj kvs) w) = None
     \<and> trace (snd (process_request E (JObj kvs) w))
         = trace w @ WriteStatus ''running'' # pre @ [WriteResult payload, WriteStatus t]
     \<and> (t = ''complete'' \<or> t = ''error'')
     \<and> (pre = [] \<or> (\<exists>s. pre = [HandlerStart s]))
     \<and> wfiles (snd (process_request E (JObj kvs) w))
         = replay (WriteStatus ''running'' # pre @ [WriteResult payload, WriteStatus t]) (wfiles w)
     \<and> status_file (wfiles (snd (process_request E (JObj kvs) w))) = Some t
     \<and> result_file (wfiles (snd (process_request E (JObj kvs) w))) = Some payload
     \<and> (\<forall>k f. 0 < k \<and>
            terminal (replay (take k (WriteStatus ''running'' # pre
                                        @ [WriteResult payload, WriteStatus t])) f)
          \<longrightarrow> result_file (replay (take k (WriteStatus ''running'' # pre
                                        @ [WriteResult payload, WriteStatus t])) f)
                = Some payload)"
proof -
  from process_request_shape [of E kvs w]
  obtain pre payload t where
    pr: "process_request E (JObj kvs) w = (None, processed pre payload t w)"
    and t: "t = ''complete'' \<or> t = ''error''"
    and pre: "pre = [] \<or> (\<exists>s. pre = [HandlerStart s])"
    by blast
  have tr: "trace (processed pre payload t w)
       = trace w @ WriteStatus ''running'' # pre @ [WriteResult payload, WriteStatus t]"
    and sf: "status_file (wfiles (processed pre payload t w)) = Some t"
    and rf: "result_file (wfiles (processed pre payload t w)) = Some payload"
    by (simp_all add: processed_def)
  have cm: "\<forall>k f. 0 < k \<and>
            terminal (replay (take k (WriteStatus ''running'' # pre
                                        @ [WriteResult payload, WriteStatus t])) f)
          \<longrightarrow> result_file (replay (take k (WriteStatus ''running'' # pre
                                        @ [WriteResult payload, WriteStatus t])) f)
                = Some payload"
    using replay_prefix_commit [OF pre] by blast
  have r: "snd (process_request E (JObj kvs) w) = processed pre payload t w"
    "fst (process_request E (JObj kvs) w) = None"
    by (simp_all add: pr)
  show ?thesis
    unfolding r using tr sf rf processed_files [OF pre, of payload t w] t pre cm by blast
qed

lemma demo_request_run:
  "process_request demo_env (JObj demo_request) demo_worker =
     (None, \<lparr>wfiles = \<lparr>request_file = None, status_file = Some ''complete'',
                         result_file = Some ''<json>''\<rparr>,
             trace = [WriteStatus ''running'', HandlerStart ''read_messages'',
                      WriteResult ''<json>'', WriteStatus ''complete'']\<rparr>)"
  by (simp add: process_request_def demo_request_def Let_def handle_read_messages_def
      finish_step_def demo_env_def demo_dumps_def step_result_def write_status_def
      write_result_def write_text_result_def demo_worker_def no_files_def)

theorem C1_status_commits_result_witness:
  "trace (snd (process_request demo_env (JObj demo_request) demo_worker))
     = [WriteStatus ''running'', HandlerStart ''read_messages'',
        WriteResult ''<json>'', WriteStatus ''complete'']
   \<and> terminal (replay (take 4 [WriteStatus ''running'', HandlerStart ''read_messages'',
                                 WriteResult ''<json>'', WriteStatus ''complete'']) no_files)
   \<and> result_file (replay (take 4 [WriteStatus ''running'', HandlerStart ''read_messages'',
                                    WriteResult ''<json>'', WriteStatus ''complete'']) no_files)
       = Some ''<json>''
   \<and> \<not> terminal (replay (take 3 [WriteStatus ''running'', HandlerStart ''read_messages'',
                                   WriteResult ''<json>'', WriteStatus ''complete'']) no_files)"
  using C1_status_commits_result [of demo_env demo_request demo_worker]
  by (simp add: demo_request_run replay_def terminal_def no_files_def)

section \<open>A result that does not parse\<close>

text \<open>
  C5. On the controller side the claim fails. With the status \<open>complete\<close> and a result
  file that is not JSON, the polling thread dies at \<open>json.loads\<close>: both files stay, and
  the panel shows the two progress lines and no failure. The worker, on a request that is not JSON, does what the claim
  says: it deletes the request and writes the error.
\<close>

theorem C5_unparsed_result_left_in_place:
  "poll_files demo_env demo_stale
     = (ThreadDied JSONDecodeError, demo_stale,
        [''  Status file found: complete'', ''  Result received (8 bytes)''])
   \<and> poll_once demo_env (on_read_result demo_env) 1 0 None (demo_panel\<lparr>files := demo_stale\<rparr>)
       = (ThreadDied JSONDecodeError,
          demo_panel\<lparr>files := demo_stale,
                      ui := [Log ''  Status file found: complete'',
                             Log ''  Result received (8 bytes)'']\<rparr>)
   \<and> worker_poll demo_env
       \<lparr>wfiles = \<lparr>request_file = Some ''not json'', status_file = None, result_file = None\<rparr>,
        trace = []\<rparr>
   = \<lparr>wfiles = \<lparr>request_file = None, status_file = Some ''error'',
                  result_file = Some ''Invalid request JSON: <message>''\<rparr>,
      trace = [ClearRequest, WriteResult ''Invalid request JSON: <message>'',
               WriteStatus ''error'']\<rparr>"
proof -
  have a: "poll_files demo_env demo_stale
     = (ThreadDied JSONDecodeError, demo_stale,
        [''  Status file found: complete'', ''  Result received (8 bytes)''])"
    by (simp add: poll_files_def demo_stale_def strip_def is_space_def demo_env_def
        demo_loads_def Let_def digit_char_def)
  have b: "poll_once demo_env (on_read_result demo_env) 1 0 None (demo_panel\<lparr>files := demo_stale\<rparr>)
       = (ThreadDied JSONDecodeError,
          demo_panel\<lparr>files := demo_stale,
                      ui := [Log ''  Status file found: complete'',
                             Log ''  Result received (8 bytes)'']\<rparr>)"
    by (simp add: poll_once_def a Let_def log_def demo_panel_def)
  have c: "worker_poll demo_env
       \<lparr>wfiles = \<lparr>request_file = Some ''not json'', status_file = None, result_file = None\<rparr>,
        trace = []\<rparr>
   = \<lparr>wfiles = \<lparr>request_file = None, status_file = Some ''error'',
                  result_file = Some ''Invalid request JSON: <message>''\<rparr>,
      trace = [ClearRequest, WriteResult ''Invalid request JSON: <message>'',
               WriteStatus ''error'']\<rparr>"
    by (simp add: worker_poll_def write_error_def clear_request_def write_status_def
        write_text_result_def demo_env_def demo_loads_def)
  from a b c show ?thesis by simp
qed


section \<open>The cursor after a manual load of read results\<close>

lemma remove_empty_plan_state:
  assumes "workflow_process p"
    and "0 \<le> current_thread_index (state p)"
    and "current_thread_index (state p) < int (length (unread_groups (state p)))"
    and "current_group_plan (state p) = Some pl"
    and "suspects pl = []"
  shows "state (run_removal E confirm exited p) = advance_state (state p)"
  using assms
  by (simp add: run_removal_def Let_def py_nth_in_range advance_panel_proj)

lemma demo_groups_loaded:
  "state (load_groups demo_env (JArr [demo_g1_json]) demo_panel)
     = PanelState0\<lparr>unread_groups := [demo_g1]\<rparr>"
  "workflow_process (load_groups demo_env (JArr [demo_g1_json]) demo_panel)"
  by (simp_all add: load_groups_def demo_g1_json_def deserialize_thread_def Let_def
      demo_panel_def PanelState0_def demo_g1_def)

lemma demo_plan_loaded:
  "state (load_plan demo_env (JObj [(''suspects'', JArr []), (''confirmed'', JBool False),
                                  (''note'', JStr '''')])
          (load_groups demo_env (JArr [demo_g1_json]) demo_panel))
     = PanelState0\<lparr>unread_groups := [demo_g1],
         current_group_plan := Some \<lparr>suspects = [], confirmed = False, plan_note = Some ''''\<rparr>\<rparr>"
  "workflow_process (load_plan demo_env (JObj [(''suspects'', JArr []), (''confirmed'', JBool False),
                                  (''note'', JStr '''')])
          (load_groups demo_env (JArr [demo_g1_json]) demo_panel))"
  by (simp_all add: load_plan_def Let_def demo_groups_loaded PanelState0_def)

lemma demo_pass_done_state:
  "current_thread_index (state demo_pass_done) = 1"
  "unread_groups (state demo_pass_done) = [demo_g1]"
proof -
  have "state demo_pass_done = advance_state (PanelState0\<lparr>unread_groups := [demo_g1],
         current_group_plan := Some \<lparr>suspects = [], confirmed = False, plan_note = Some ''''\<rparr>\<rparr>)"
    unfolding demo_pass_done_def
    using remove_empty_plan_state [of "load_plan demo_env (JObj [(''suspects'', JArr []),
        (''confirmed'', JBool False), (''note'', JStr '''')])
          (load_groups demo_env (JArr [demo_g1_json]) demo_panel)"
        "\<lparr>suspects = [], confirmed = False, plan_note = Some ''''\<rparr>" demo_env True None]
    by (simp add: demo_plan_loaded PanelState0_def)
  then show "current_thread_index (state demo_pass_done) = 1"
    "unread_groups (state demo_pass_done) = [demo_g1]"
    by (simp_all add: advance_state_fields PanelState0_def)
qed

text \<open>
  C3. The invariant fails after a manual load. From the empty state, one group is loaded
  and passed, which leaves the cursor at 1 with one group: within bounds. Loading read
  results then replaces \<open>unread_groups\<close>, here by the empty list, and keeps the cursor: 1
  is beyond the length 0.
\<close>

theorem C3_manual_load_keeps_cursor:
  "cursor_ok (state demo_panel)
   \<and> cursor_ok (state demo_pass_done)
   \<and> current_thread_index (state demo_reloaded) = 1
   \<and> unread_groups (state demo_reloaded) = []
   \<and> \<not> cursor_ok (state demo_reloaded)"
proof -
  have a: "state demo_reloaded = (state demo_pass_done)\<lparr>unread_groups := []\<rparr>"
    by (simp add: demo_reloaded_def load_read_results_def Let_def)
  show ?thesis
    by (simp add: a cursor_ok_def demo_pass_done_state demo_panel_def PanelState0_def)
qed


section \<open>The default of is\_group\<close>

lemma thread_record_okD:
  assumes "thread_record_ok kvs"
  obtains n i u where "map_of kvs ''name'' = Some (JStr n)"
    "map_of kvs ''thread_id'' = Some (JStr i)" "map_of kvs ''unread'' = Some (JBool u)"
    "map_of kvs ''is_group'' = None \<or> (\<exists>g. map_of kvs ''is_group'' = Some (JBool g))"
proof -
  from assms obtain n where n: "map_of kvs ''name'' = Some (JStr n)"
    by (auto simp add: thread_record_ok_def split: option.splits json.splits)
  from assms obtain i where i: "map_of kvs ''thread_id'' = Some (JStr i)"
    by (auto simp add: thread_record_ok_def split: option.splits json.splits)
  from assms obtain u where u: "map_of kvs ''unread'' = Some (JBool u)"
    by (auto simp add: thread_record_ok_def split: option.splits json.splits)
  from assms have g: "map_of kvs ''is_group'' = None \<or> (\<exists>g. map_of kvs ''is_group'' = Some (JBool g))"
    by (auto simp add: thread_record_ok_def split: option.splits json.splits)
  from n i u g that show thesis by blast
qed

lemma deserialize_thread_record:
  assumes "thread_record_ok kvs"
  shows "\<exists>t. deserialize_thread (JObj kvs) = Inr t
           \<and> (map_of kvs ''is_group'' = None \<longrightarrow> is_group t)"
proof -
  from assms obtain n i u where f: "map_of kvs ''name'' = Some (JStr n)"
    "map_of kvs ''thread_id'' = Some (JStr i)" "map_of kvs ''unread'' = Some (JBool u)"
    "map_of kvs ''is_group'' = None \<or> (\<exists>g. map_of kvs ''is_group'' = Some (JBool g))"
    by (rule thread_record_okD)
  from f(4) show ?thesis
    by (auto simp add: deserialize_thread_def f(1-3))
qed

lemma classify_item_record:
  "\<exists>t. classify_item E (JObj kvs) = Inr t
       \<and> (map_of kvs ''is_group'' = None \<longrightarrow> \<not> is_group t)"
  by (simp add: classify_item_def)

lemma mapR_all_ok:
  assumes "\<forall>x\<in>set xs. \<exists>y. f x = Inr y \<and> P x y"
  shows "\<exists>ys. mapR f xs = Inr ys \<and> length ys = length xs \<and> (\<forall>k<length xs. P (xs ! k) (ys ! k))"
  using assms
proof (induction xs)
  case Nil
  then show ?case by simp
next
  case (Cons x xs)
  then obtain y where y: "f x = Inr y" "P x y" by auto
  from Cons obtain ys where ys: "mapR f xs = Inr ys" "length ys = length xs"
    "\<forall>k<length xs. P (xs ! k) (ys ! k)" by auto
  have "\<forall>k<length (x # xs). P ((x # xs) ! k) ((y # ys) ! k)"
    using y(2) ys(3) by (auto simp add: nth_Cons split: nat.splits)
  with y ys show ?case by simp
qed

text \<open>
  C9. Take thread records with \<open>name\<close>, \<open>thread_id\<close> and \<open>unread\<close>, with or without
  \<open>is_group\<close>. Deserializing the snapshot that holds them as \<open>threads\<close>, and parsing the
  classification text that decodes to them, both succeed and give one thread per record;
  for every record without the key \<open>is_group\<close>, the thread from the snapshot is a group
  and the thread from the classification is not.
\<close>

theorem C9_is_group_default_differs:
  assumes "list_all thread_record_ok recs"
    and "json_loads E text_output = Inr (JObj [(''threads'', JArr (map JObj recs))])"
  shows "\<exists>st ths.
           deserialize_state E (JObj [(''threads'', JArr (map JObj recs))]) = Inr st
           \<and> parse_classification E text_output = Inr ths
           \<and> length (threads st) = length recs \<and> length ths = length recs
           \<and> (\<forall>k<length recs. map_of (recs ! k) ''is_group'' = None \<longrightarrow>
                 is_group (threads st ! k) \<and> \<not> is_group (ths ! k))"
proof -
  have "\<forall>x\<in>set (map JObj recs). \<exists>t. deserialize_thread x = Inr t
          \<and> (\<forall>kvs. x = JObj kvs \<longrightarrow> map_of kvs ''is_group'' = None \<longrightarrow> is_group t)"
    using assms(1) deserialize_thread_record by (auto simp add: list_all_iff)
  from mapR_all_ok [of "map JObj recs" deserialize_thread
      "\<lambda>x t. \<forall>kvs. x = JObj kvs \<longrightarrow> map_of kvs ''is_group'' = None \<longrightarrow> is_group t", OF this]
  obtain ts where ts: "mapR deserialize_thread (map JObj recs) = Inr ts"
    "length ts = length recs"
    "\<forall>k<length recs. map_of (recs ! k) ''is_group'' = None \<longrightarrow> is_group (ts ! k)"
    by auto
  have "\<forall>x\<in>set (map JObj recs). \<exists>t. classify_item E x = Inr t
          \<and> (\<forall>kvs. x = JObj kvs \<longrightarrow> map_of kvs ''is_group'' = None \<longrightarrow> \<not> is_group t)"
    using classify_item_record [of E] by auto
  from mapR_all_ok [of "map JObj recs" "classify_item E"
      "\<lambda>x t. \<forall>kvs. x = JObj kvs \<longrightarrow> map_of kvs ''is_group'' = None \<longrightarrow> \<not> is_group t", OF this]
  obtain cs where cs: "mapR (classify_item E) (map JObj recs) = Inr cs"
    "length cs = length recs"
    "\<forall>k<length recs. map_of (recs ! k) ''is_group'' = None \<longrightarrow> \<not> is_group (cs ! k)"
    by auto
  have d: "deserialize_state E (JObj [(''threads'', JArr (map JObj recs))])
      = Inr (PanelState0\<lparr>threads := ts\<rparr>)"
    by (simp add: deserialize_state_def ts(1) deserialize_opt_plan_def deserialize_logs_def
        PanelState0_def)
  have p: "parse_classification E text_output = Inr cs"
    by (simp add: parse_classification_def assms(2) cs(1))
  from d p ts cs show ?thesis by simp
qed

theorem C9_is_group_default_differs_witness:
  "list_all thread_record_ok [demo_record]
   \<and> json_loads demo_env demo_classify_text
       = Inr (JObj [(''threads'', JArr (map JObj [demo_record]))])
   \<and> map_of ([demo_record] ! 0) ''is_group'' = None
   \<and> deserialize_state demo_env (JObj [(''threads'', JArr (map JObj [demo_record]))])
       = Inr (PanelState0\<lparr>threads := [demo_g1]\<rparr>)
   \<and> parse_classification demo_env demo_classify_text = Inr [demo_g1\<lparr>is_group := False\<rparr>]"
  using C9_is_group_default_differs [of "[demo_record]" demo_env demo_classify_text]
  by (simp add: thread_record_ok_def demo_record_def demo_classify_text_def demo_env_def
      demo_loads_def deserialize_state_def deserialize_thread_def deserialize_opt_plan_def
      deserialize_logs_def parse_classification_def classify_item_def PanelState0_def
      demo_g1_def)


section \<open>The plan's list of suspects\<close>

lemma view_rest_ui [simp]:
  "view (rp\<lparr>rest := log m (rest rp)\<rparr>) = log m (view rp)"
  "view (rp\<lparr>rest := set_status m (rest rp)\<rparr>) = set_status m (view rp)"
  "view (rp\<lparr>rest := show_info t m (rest rp)\<rparr>) = show_info t m (view rp)"
  "view (rp\<lparr>rest := show_warning t m (rest rp)\<rparr>) = show_warning t m (view rp)"
  "view (rp\<lparr>rest := uncaught e (rest rp)\<rparr>) = uncaught e (view rp)"
  by (simp_all add: view_def view_state_def log_def set_status_def show_info_def
      show_warning_def uncaught_def)

lemma view_state_rest_ui [simp]:
  "view_state (rp\<lparr>rest := log m (rest rp)\<rparr>) = view_state rp"
  "view_state (rp\<lparr>rest := set_status m (rest rp)\<rparr>) = view_state rp"
  by (simp_all add: view_state_def)

lemma state_view [simp]: "state (view rp) = view_state rp"
  by (simp add: view_def)

lemma view_state_fields [simp]:
  "current_group_suspects (view_state rp) = deref (heap rp) (cgs_at rp)"
  "current_group_plan (view_state rp) = map_option (plan_value (heap rp)) (cgp rp)"
  "unread_groups (view_state rp) = unread_groups (state (rest rp))"
  "current_thread_index (view_state rp) = current_thread_index (state (rest rp))"
  by (simp_all add: view_state_def)

lemma run_build_plan_ref_view:
  "view (run_build_plan_ref rp) = run_build_plan (view rp)"
  by (simp add: run_build_plan_ref_def run_build_plan_def Let_def build_removal_plan_ref_def
      build_removal_plan_def plan_value_def view_def view_state_def save_panel_def
      log_def set_status_def show_info_def show_warning_def uncaught_def
      split: sum.splits)

lemma run_build_plan_ref_store:
  "heap (run_build_plan_ref rp) = heap rp" "cgs_at (run_build_plan_ref rp) = cgs_at rp"
  by (simp_all add: run_build_plan_ref_def Let_def split: sum.splits)

lemma run_build_plan_ref_plan:
  assumes "0 \<le> current_thread_index (view_state rp)"
    and "current_thread_index (view_state rp) < int (length (unread_groups (view_state rp)))"
  shows "cgp (run_build_plan_ref rp) =
           (if deref (heap rp) (cgs_at rp) = [] then cgp rp
            else Some \<lparr>suspects_at = cgs_at rp, confirmed_o = False, note_o = None\<rparr>)"
  using assms
  by (simp add: run_build_plan_ref_def Let_def py_nth_in_range build_removal_plan_ref_def)

lemma run_build_plan_refused:
  assumes "0 \<le> current_thread_index (state p)"
    and "current_thread_index (state p) < int (length (unread_groups (state p)))"
    and "current_group_suspects (state p) = []"
  shows "run_build_plan p =
           show_warning ''Missing Data''
             (''No suspects found for ''
                @ name (unread_groups (state p) ! nat (current_thread_index (state p)))
                @ ''. Run 'Extract Suspects' first.'') p"
  using assms by (simp add: run_build_plan_def Let_def py_nth_in_range)

text \<open>
  C6, as amended. The Plan step on values is the Plan step on list objects, seen through
  the store. For a cursor within bounds: with no current suspects it is refused with the
  missing-data box and changes no state; otherwise it leaves the store as it is and sets
  a plan with \<open>confirmed = False\<close> and no note whose list of suspects is the very list
  object of \<open>current_group_suspects\<close>. So the two lists are equal element for element,
  and an element appended to that object shows in both.
\<close>

theorem C6_plan_shares_list:
  assumes "0 \<le> current_thread_index (view_state rp)"
    and "current_thread_index (view_state rp) < int (length (unread_groups (view_state rp)))"
  shows "view (run_build_plan_ref rp) = run_build_plan (view rp)
       \<and> heap (run_build_plan_ref rp) = heap rp
       \<and> cgs_at (run_build_plan_ref rp) = cgs_at rp
       \<and> (current_group_suspects (view_state rp) = [] \<longrightarrow>
             cgp (run_build_plan_ref rp) = cgp rp
           \<and> state (run_build_plan (view rp)) = view_state rp
           \<and> reports_missing_data (new_events (view rp) (run_build_plan (view rp))))
       \<and> (current_group_suspects (view_state rp) \<noteq> [] \<longrightarrow>
             cgp (run_build_plan_ref rp)
               = Some \<lparr>suspects_at = cgs_at rp, confirmed_o = False, note_o = None\<rparr>
           \<and> current_group_plan (state (run_build_plan (view rp)))
               = Some \<lparr>suspects = current_group_suspects (view_state rp), confirmed = False,
                        plan_note = None\<rparr>
           \<and> (\<forall>x. current_group_suspects
                      (view_state (list_append_at (cgs_at rp) x (run_build_plan_ref rp)))
                    = current_group_suspects (view_state rp) @ [x]
                  \<and> current_group_plan
                      (view_state (list_append_at (cgs_at rp) x (run_build_plan_ref rp)))
                    = Some \<lparr>suspects = current_group_suspects (view_state rp) @ [x],
                             confirmed = False, plan_note = None\<rparr>))"
proof -
  have v: "view (run_build_plan_ref rp) = run_build_plan (view rp)"
    by (rule run_build_plan_ref_view)
  have st: "state (run_build_plan (view rp)) = view_state (run_build_plan_ref rp)"
    using v [symmetric] by simp
  note pl = run_build_plan_ref_plan [OF assms]
  have e: "current_group_suspects (view_state rp) = [] \<longrightarrow>
      state (run_build_plan (view rp)) = view_state rp
      \<and> reports_missing_data (new_events (view rp) (run_build_plan (view rp)))"
    using run_build_plan_refused [of "view rp"] assms
    by (simp add: new_events_def reports_missing_data_def)
  show ?thesis
    using e
    by (simp add: v st pl run_build_plan_ref_store list_append_at_def plan_value_def deref_def)
qed

lemma demo_ref_facts:
  "current_thread_index (view_state demo_ref) = 0"
  "unread_groups (view_state demo_ref) = [demo_g1]"
  "current_group_suspects (view_state demo_ref) = [demo_s1]"
  "cgs_at demo_ref = 1" "heap demo_ref 1 = Some [demo_s1]"
  "current_thread_index (state (rest demo_ref)) = 0"
  "unread_groups (state (rest demo_ref)) = [demo_g1]"
  "deref (heap demo_ref) (Suc 0) = [demo_s1]"
  "cgp demo_ref = None"
  by (simp_all add: demo_ref_def deref_def demo_panel_def PanelState0_def view_state_def)

theorem C6_plan_shares_list_witness:
  "0 \<le> current_thread_index (view_state demo_ref)
   \<and> current_thread_index (view_state demo_ref) < int (length (unread_groups (view_state demo_ref)))
   \<and> current_group_suspects (view_state demo_ref) \<noteq> []
   \<and> cgp (run_build_plan_ref demo_ref)
       = Some \<lparr>suspects_at = 1, confirmed_o = False, note_o = None\<rparr>
   \<and> current_group_plan (state (run_build_plan (view demo_ref)))
       = Some \<lparr>suspects = [demo_s1], confirmed = False, plan_note = None\<rparr>"
  using C6_plan_shares_list [of demo_ref]
  by (simp add: demo_ref_facts)

text \<open>The claim as stated fails: the plan holds the address of the panel's list, and a
  suspect appended to the panel's list is in the plan's list as well. And with the cursor
  at the end and no suspects, the refusal is the notice that all groups are processed, not
  a missing-data report.\<close>

theorem C6_counterexample:
  "map_option suspects_at (cgp (run_build_plan_ref demo_ref))
     = Some (cgs_at (run_build_plan_ref demo_ref))
   \<and> map_option suspects (current_group_plan (view_state (run_build_plan_ref demo_ref)))
       = Some [demo_s1]
   \<and> map_option suspects (current_group_plan (view_state
         (list_append_at (cgs_at (run_build_plan_ref demo_ref)) demo_s2
            (run_build_plan_ref demo_ref))))
       = Some [demo_s1, demo_s2]
   \<and> current_group_suspects (state demo_panel) = []
   \<and> new_events demo_panel (run_build_plan demo_panel)
       = [ShowInfo ''Complete'' ''All unread groups processed.'']"
proof -
  have a: "0 \<le> current_thread_index (view_state demo_ref)"
    and b: "current_thread_index (view_state demo_ref)
              < int (length (unread_groups (view_state demo_ref)))"
    by (simp_all add: demo_ref_facts)
  have pl: "cgp (run_build_plan_ref demo_ref)
      = Some \<lparr>suspects_at = 1, confirmed_o = False, note_o = None\<rparr>"
    using run_build_plan_ref_plan [OF a b] by (simp add: demo_ref_facts)
  have e: "new_events demo_panel (run_build_plan demo_panel)
      = [ShowInfo ''Complete'' ''All unread groups processed.'']"
    by (simp add: run_build_plan_def Let_def demo_panel_def PanelState0_def new_events_def)
  have f: "current_group_suspects (state demo_panel) = []"
    by (simp add: demo_panel_def PanelState0_def)
  have d: "\<And>h a xs. deref (h(a := Some xs)) a = xs"
    by (simp add: deref_def)
  show ?thesis
    by (simp add: pl e f d run_build_plan_ref_store demo_ref_facts list_append_at_def
        plan_value_def)
qed

section \<open>The cursor and the accumulated results under the operations\<close>

lemma load_failed_state [simp]: "state (load_failed E what e p) = state p"
  by (simp add: load_failed_def)

lemma request_agent_step_state [simp]:
  "state (request_agent_step E exited step params p) = state p"
  by (simp add: request_agent_step_def Let_def split: option.splits)

lemma keep_load_threads: "cursor_of (load_threads E j p) = cursor_of p"
  by (simp add: load_threads_def cursor_of_def Let_def split: sum.splits)

lemma keep_load_suspects: "cursor_of (load_suspects E j p) = cursor_of p"
  by (simp add: load_suspects_def cursor_of_def Let_def split: sum.splits)

lemma keep_load_plan: "cursor_of (load_plan E j p) = cursor_of p"
  by (simp add: load_plan_def cursor_of_def Let_def split: sum.splits)

lemma keep_classify: "cursor_of (run_classify E x p) = cursor_of p"
  by (simp add: run_classify_def cursor_of_def Let_def)

lemma keep_classify_result: "cursor_of (on_classify_result E j p) = cursor_of p"
  by (simp add: on_classify_result_def cursor_of_def Let_def split: sum.splits)

lemma keep_read: "cursor_of (run_read_messages E x p) = cursor_of p"
  by (simp add: run_read_messages_def cursor_of_def Let_def split: sum.splits)

lemma keep_read_result: "cursor_of (on_read_result E j p) = cursor_of p"
  by (simp add: on_read_result_def cursor_of_def Let_def split: sum.splits)

lemma keep_extract: "cursor_of (run_extract E p) = cursor_of p"
  by (simp add: run_extract_def cursor_of_def Let_def split: sum.splits)

lemma keep_plan: "cursor_of (run_build_plan p) = cursor_of p"
  by (simp add: run_build_plan_def cursor_of_def Let_def split: sum.splits)

lemma py_nth_Inr_bound:
  "py_nth xs i = Inr x \<Longrightarrow> i < int (length xs)"
  by (auto simp add: py_nth_def Let_def split: if_splits)

lemma cursor_ok_plan_update [simp]:
  "cursor_ok (st\<lparr>current_group_plan := x\<rparr>) = cursor_ok st"
  by (simp add: cursor_ok_def)

lemma cursor_load_groups: "cursor_ok (state p) \<Longrightarrow> cursor_ok (state (load_groups E j p))"
  by (simp add: load_groups_def cursor_ok_def Let_def split: sum.splits)

lemma cursor_filter: "cursor_ok (state p) \<Longrightarrow> cursor_ok (state (run_filter p))"
  by (simp add: run_filter_def cursor_ok_def Let_def)

lemma cursor_advance:
  "0 \<le> current_thread_index (state p) \<Longrightarrow>
   current_thread_index (state p) < int (length (unread_groups (state p))) \<Longrightarrow>
   cursor_ok (state (advance_to_next_group p))"
  by (simp add: advance_panel_proj advance_state_fields cursor_ok_def)

lemma cursor_removal:
  assumes "cursor_ok (state p)"
  shows "cursor_ok (state (run_removal E c x p))"
proof (cases "workflow_process p \<and>
    current_thread_index (state p) < int (length (unread_groups (state p)))")
  case False
  with assms show ?thesis by (auto simp add: run_removal_def Let_def)
next
  case True
  with assms have nth: "py_nth (unread_groups (state p)) (current_thread_index (state p))
      = Inr (unread_groups (state p) ! nat (current_thread_index (state p)))"
    by (simp add: py_nth_in_range cursor_ok_def)
  from assms True have adv: "\<And>m. cursor_ok (state (advance_to_next_group (log m p)))"
    by (intro cursor_advance) (simp_all add: cursor_ok_def)
  from assms True nth adv show ?thesis
    by (simp add: run_removal_def Let_def split: option.splits)
qed

lemma cursor_removal_result:
  assumes "cursor_ok (state p)"
  shows "cursor_ok (state (on_removal_result E j p))"
proof (cases "bindR (py_get j ''text'' (JStr '''')) as_str")
  case (Inl e)
  with assms show ?thesis by (simp add: on_removal_result_def)
next
  case (Inr t)
  show ?thesis
  proof (cases "py_nth (unread_groups (state p)) (current_thread_index (state p))")
    case (Inl e)
    with assms Inr show ?thesis by (simp add: on_removal_result_def)
  next
    case (Inr th)
    from py_nth_Inr_bound [OF this] assms
    have b: "0 \<le> current_thread_index (state p)"
      "current_thread_index (state p) < int (length (unread_groups (state p)))"
      by (simp_all add: cursor_ok_def)
    from \<open>bindR (py_get j ''text'' (JStr '''')) as_str = Inr t\<close> Inr show ?thesis
      by (auto simp add: on_removal_result_def Let_def b intro!: cursor_advance
          split: option.splits)
  qed
qed

text \<open>Every operation other than the manual load of read results keeps the cursor
  within \<open>0 .. len(unread_groups)\<close>.\<close>

theorem cursor_ok_perform:
  assumes "cursor_ok (state p)" and "\<not> is_load_read_results a"
  shows "cursor_ok (state (perform E a p))"
proof -
  have keep: "\<And>q. cursor_of q = cursor_of p \<Longrightarrow> cursor_ok (state q)"
    using assms(1) by (simp add: cursor_of_def cursor_ok_def)
  from assms show ?thesis
    by (cases a)
       (simp_all add: keep keep_load_threads keep_load_suspects keep_load_plan keep_classify
          keep_classify_result keep_read keep_read_result keep_extract keep_plan
          cursor_load_groups cursor_filter cursor_removal cursor_removal_result)
qed

theorem cursor_ok_run_actions:
  assumes "cursor_ok (state p)" and "list_all (\<lambda>a. \<not> is_load_read_results a) acts"
  shows "cursor_ok (state (run_actions E acts p))"
  using assms by (induction acts arbitrary: p) (simp_all add: cursor_ok_perform)

theorem cursor_ok_run_actions_witness:
  "cursor_ok (state demo_panel)
   \<and> list_all (\<lambda>a. \<not> is_load_read_results a) demo_actions
   \<and> cursor_ok (state (run_actions demo_env demo_actions demo_panel))"
  using cursor_ok_run_actions [of demo_panel demo_actions demo_env]
  by (simp add: cursor_ok_def demo_panel_def PanelState0_def demo_actions_def)

lemma acc_load_threads: "accumulated_of (load_threads E j p) = accumulated_of p"
  by (simp add: load_threads_def accumulated_of_def Let_def split: sum.splits)

lemma acc_load_groups: "accumulated_of (load_groups E j p) = accumulated_of p"
  by (simp add: load_groups_def accumulated_of_def Let_def split: sum.splits)

lemma read_results_loop_acc:
  "all_suspects (snd (read_results_loop E items st)) = all_suspects st
   \<and> all_plans (snd (read_results_loop E items st)) = all_plans st"
  by (induction E items st rule: read_results_loop.induct)
     (simp_all add: Let_def split: sum.splits)

lemma read_results_loop_acc_pair:
  "read_results_loop E items st = (r, st') \<Longrightarrow>
   all_suspects st' = all_suspects st \<and> all_plans st' = all_plans st"
  using read_results_loop_acc [of E items st] by simp

lemma acc_load_read_results: "accumulated_of (load_read_results E j p) = accumulated_of p"
  by (auto simp add: load_read_results_def accumulated_of_def Let_def
      split: sum.splits prod.splits option.splits dest: read_results_loop_acc_pair)

lemma acc_load_suspects: "accumulated_of (load_suspects E j p) = accumulated_of p"
  by (simp add: load_suspects_def accumulated_of_def Let_def split: sum.splits)

lemma acc_load_plan: "accumulated_of (load_plan E j p) = accumulated_of p"
  by (simp add: load_plan_def accumulated_of_def Let_def split: sum.splits)

lemma acc_classify: "accumulated_of (run_classify E x p) = accumulated_of p"
  by (simp add: run_classify_def accumulated_of_def Let_def)

lemma acc_classify_result: "accumulated_of (on_classify_result E j p) = accumulated_of p"
  by (simp add: on_classify_result_def accumulated_of_def Let_def split: sum.splits)

lemma acc_filter: "accumulated_of (run_filter p) = accumulated_of p"
  by (simp add: run_filter_def accumulated_of_def Let_def)

lemma acc_read: "accumulated_of (run_read_messages E x p) = accumulated_of p"
  by (simp add: run_read_messages_def accumulated_of_def Let_def split: sum.splits)

lemma acc_read_result: "accumulated_of (on_read_result E j p) = accumulated_of p"
  by (simp add: on_read_result_def accumulated_of_def Let_def split: sum.splits)

lemma acc_extract: "accumulated_of (run_extract E p) = accumulated_of p"
  by (simp add: run_extract_def accumulated_of_def Let_def split: sum.splits)

lemma acc_plan: "accumulated_of (run_build_plan p) = accumulated_of p"
  by (simp add: run_build_plan_def accumulated_of_def Let_def split: sum.splits)

lemma acc_removal:
  "\<exists>ss ps. accumulated_of (run_removal E c x p)
      = (all_suspects (state p) @ ss, all_plans (state p) @ ps)"
  by (auto simp add: run_removal_def accumulated_of_def Let_def advance_panel_proj
      advance_state_fields split: sum.splits option.splits)

lemma acc_removal_result:
  "\<exists>ss ps. accumulated_of (on_removal_result E j p)
      = (all_suspects (state p) @ ss, all_plans (state p) @ ps)"
  by (auto simp add: on_removal_result_def accumulated_of_def Let_def advance_panel_proj
      advance_state_fields split: sum.splits option.splits)

text \<open>No operation removes or reorders what \<open>all_suspects\<close> and \<open>all_plans\<close> hold:
  each leaves them as they are or appends to them.\<close>

theorem accumulated_perform:
  "\<exists>ss ps. all_suspects (state (perform E a p)) = all_suspects (state p) @ ss
         \<and> all_plans (state (perform E a p)) = all_plans (state p) @ ps"
proof -
  have keep: "\<And>q. accumulated_of q = accumulated_of p \<Longrightarrow>
      \<exists>ss ps. all_suspects (state q) = all_suspects (state p) @ ss
         \<and> all_plans (state q) = all_plans (state p) @ ps"
    by (simp add: accumulated_of_def)
  have grow: "\<And>q. \<exists>ss ps. accumulated_of q
        = (all_suspects (state p) @ ss, all_plans (state p) @ ps) \<Longrightarrow>
      \<exists>ss ps. all_suspects (state q) = all_suspects (state p) @ ss
         \<and> all_plans (state q) = all_plans (state p) @ ps"
    by (auto simp add: accumulated_of_def)
  show ?thesis
  proof (cases a)
    case (Remove c x)
    then show ?thesis using grow [OF acc_removal] by (simp only: perform.simps)
  next
    case (RemovalResult j)
    then show ?thesis using grow [OF acc_removal_result] by (simp only: perform.simps)
  qed ((simp only: perform.simps, rule keep,
         simp add: acc_load_threads acc_load_groups acc_load_read_results
           acc_load_suspects acc_load_plan acc_classify acc_classify_result acc_filter
           acc_read acc_read_result acc_extract acc_plan)+)
qed

theorem accumulated_run_actions:
  "\<exists>ss ps. all_suspects (state (run_actions E acts p)) = all_suspects (state p) @ ss
         \<and> all_plans (state (run_actions E acts p)) = all_plans (state p) @ ps"
proof (induction acts arbitrary: p)
  case Nil
  then show ?case by simp
next
  case (Cons a acts)
  from accumulated_perform [of E a p] obtain ss ps where
    1: "all_suspects (state (perform E a p)) = all_suspects (state p) @ ss"
       "all_plans (state (perform E a p)) = all_plans (state p) @ ps" by blast
  from Cons [of "perform E a p"] obtain ss' ps' where
    2: "all_suspects (state (run_actions E acts (perform E a p)))
          = all_suspects (state (perform E a p)) @ ss'"
       "all_plans (state (run_actions E acts (perform E a p)))
          = all_plans (state (perform E a p)) @ ps'" by blast
  from 1 2 show ?case by simp
qed


end
